theory Spec2Isabelle
  imports Main
begin

section \<open>Data model of the installer wizard (install/tui.go)\<close>

text \<open>
  The Go type \<open>screenID\<close> is a string type with fifteen declared constants; the wizard
  only ever stores these constants in \<open>currentScreen\<close>, so the type is embedded as an
  enumeration. The \<open>default\<close> branches of the two navigation switches (which return
  \<open>welcomeScreen\<close>) are written out below wherever a declared constant falls into them.
\<close>

datatype screenID =
    welcomeScreen
  | hybridModeScreen
  | hybridCredentialsScreen
  | domainConfigScreen
  | emailConfigScreen
  | emailInputScreen
  | advancedConfigScreen
  | containerScreen
  | installContainersScreen
  | installScreen
  | crowdsecScreen
  | crowdsecManageScreen
  | crowdsecInstallScreen
  | setupTokenScreen
  | completeScreen

text \<open>
  Modelled from the spec: the container runtime enumeration and the \<open>Config\<close> struct are
  declared in another file of the repository. The record below holds exactly the fields
  that tui.go reads or writes; \<open>Unset\<close> is the zero value of the runtime choice.
\<close>

datatype SupportedContainer = Docker | Podman | Unset

record Config =
  HybridMode :: bool
  BaseDomain :: string
  DashboardDomain :: string
  LetsEncryptEmail :: string
  InstallGerbil :: bool
  EnableEmail :: bool
  EmailSMTPHost :: string
  EmailSMTPPort :: int
  EmailSMTPUser :: string
  EmailSMTPPass :: string
  EmailNoReply :: string
  EnableIPv6 :: bool
  InstallationContainerType :: SupportedContainer
  DoCrowdsecInstall :: bool

text \<open>The zero value \<open>Config{}\<close>.\<close>

definition emptyConfig :: Config where
  "emptyConfig = \<lparr> HybridMode = False, BaseDomain = [], DashboardDomain = [],
     LetsEncryptEmail = [], InstallGerbil = False, EnableEmail = False,
     EmailSMTPHost = [], EmailSMTPPort = 0, EmailSMTPUser = [], EmailSMTPPass = [],
     EmailNoReply = [], EnableIPv6 = False, InstallationContainerType = Unset,
     DoCrowdsecInstall = False \<rparr>"

section \<open>Screen graph\<close>

text \<open>\<open>getNextScreen\<close>: the button choice is an index, \<open>0\<close> meaning the first button.\<close>

fun getNextScreen :: "screenID \<Rightarrow> nat \<Rightarrow> Config \<Rightarrow> screenID" where
  "getNextScreen welcomeScreen choice cfg = hybridModeScreen"
| "getNextScreen hybridModeScreen choice cfg =
     (if choice = 0 then hybridCredentialsScreen else domainConfigScreen)"
| "getNextScreen hybridCredentialsScreen choice cfg = domainConfigScreen"
| "getNextScreen domainConfigScreen choice cfg =
     (if HybridMode cfg then advancedConfigScreen else emailConfigScreen)"
| "getNextScreen emailConfigScreen choice cfg =
     (if choice = 0 then emailInputScreen else advancedConfigScreen)"
| "getNextScreen emailInputScreen choice cfg = advancedConfigScreen"
| "getNextScreen advancedConfigScreen choice cfg = containerScreen"
| "getNextScreen containerScreen choice cfg = installContainersScreen"
| "getNextScreen installContainersScreen choice cfg = installScreen"
| "getNextScreen installScreen choice cfg =
     (if \<not> HybridMode cfg then crowdsecScreen else setupTokenScreen)"
| "getNextScreen crowdsecScreen choice cfg =
     (if choice = 0 then crowdsecManageScreen else setupTokenScreen)"
| "getNextScreen crowdsecManageScreen choice cfg =
     (if DoCrowdsecInstall cfg then crowdsecInstallScreen else setupTokenScreen)"
| "getNextScreen crowdsecInstallScreen choice cfg = setupTokenScreen"
| "getNextScreen setupTokenScreen choice cfg = completeScreen"
| "getNextScreen completeScreen choice cfg = completeScreen"

text \<open>
  \<open>getPrevScreen\<close>: the switch has no case for \<open>crowdsecInstallScreen\<close>, which therefore
  takes the \<open>default\<close> branch and yields \<open>welcomeScreen\<close>.
\<close>

fun getPrevScreen :: "screenID \<Rightarrow> Config \<Rightarrow> screenID" where
  "getPrevScreen welcomeScreen cfg = welcomeScreen"
| "getPrevScreen hybridModeScreen cfg = welcomeScreen"
| "getPrevScreen hybridCredentialsScreen cfg = hybridModeScreen"
| "getPrevScreen domainConfigScreen cfg =
     (if HybridMode cfg then hybridCredentialsScreen else hybridModeScreen)"
| "getPrevScreen emailConfigScreen cfg = domainConfigScreen"
| "getPrevScreen emailInputScreen cfg = emailConfigScreen"
| "getPrevScreen advancedConfigScreen cfg =
     (if HybridMode cfg then domainConfigScreen
      else if EnableEmail cfg then emailInputScreen
      else emailConfigScreen)"
| "getPrevScreen containerScreen cfg = advancedConfigScreen"
| "getPrevScreen installContainersScreen cfg = containerScreen"
| "getPrevScreen installScreen cfg = installContainersScreen"
| "getPrevScreen crowdsecScreen cfg = installScreen"
| "getPrevScreen crowdsecManageScreen cfg = crowdsecScreen"
| "getPrevScreen setupTokenScreen cfg =
     (if DoCrowdsecInstall cfg then crowdsecManageScreen else installScreen)"
| "getPrevScreen completeScreen cfg = completeScreen"
| "getPrevScreen crowdsecInstallScreen cfg = welcomeScreen"

section \<open>Fields, controller state, events\<close>

datatype fieldType = fieldButton | fieldInput

text \<open>
  The text-input widget is an external collaborator; the controller only uses its value,
  its focus flag, its placeholder and its echo mode.
\<close>

record textinput =
  tiValue :: string
  tiFocused :: bool
  tiPlaceholder :: string
  tiEchoPassword :: bool

definition newTextinput :: textinput where
  "newTextinput = \<lparr> tiValue = [], tiFocused = False, tiPlaceholder = [],
     tiEchoPassword = False \<rparr>"

record field =
  fType :: fieldType
  label :: string
  input :: textinput
  required :: bool

text \<open>The log viewer widget: the text it shows and whether it is scrolled to the end.\<close>

record viewport =
  vpContent :: string
  vpAtBottom :: bool

datatype keyName =
    KeyQuit | KeyHelp | KeyBack | KeyEnter | KeyTab | KeyShiftTab
  | KeyUp | KeyDown | KeyLeft | KeyRight | KeyOther

datatype msg =
    WindowSizeMsg int int
  | KeyMsg keyName
  | installStepMsg string
  | installLogMsg string
  | installBatchLogsMsg "string list"
  | installCompleteMsg
  | installErrorMsg string
  | spinnerTickMsg
  | otherMsg

text \<open>
  Commands returned to the runtime: \<open>Emit x\<close> is a command whose only effect is to
  deliver the message \<open>x\<close>; the four \<open>Run...\<close> commands stand for the batches
  \<open>tea.Batch(m.spinner.Tick, m.perform...Async())\<close>; \<open>WidgetCmds\<close> is the batch of
  whatever the widgets returned at the end of \<open>Update\<close>.
\<close>

datatype cmd =
    NoCmd
  | Quit
  | Emit msg
  | RunInstallation
  | RunCrowdsecInstallation
  | RunConfigCreation
  | RunConfigCreationAndProceed
  | WidgetCmds

text \<open>
  The controller state. The Go field \<open>fields\<close> is named \<open>fieldList\<close> here (the record
  package reserves \<open>fields\<close>); \<open>err\<close> holds the message of the Go error, \<open>None\<close> for
  \<open>nil\<close>. \<open>focusIndex\<close> and \<open>lastChoice\<close> are never negative in the program.
\<close>

record model =
  currentScreen :: screenID
  config :: Config
  fieldList :: "field list"
  focusIndex :: nat
  err :: "string option"
  spinner :: nat
  showHelp :: bool
  width :: int
  height :: int
  helpWidth :: int
  installing :: bool
  lastChoice :: nat
  installLogs :: "string list"
  logsViewport :: viewport
  installStep :: string

text \<open>
  What the controller consumes from its collaborators: the detected public address, the
  text a widget stores when asked to set a value, and the widgets' own reactions to a
  message.
\<close>

record env =
  getPublicIP :: string
  inputSetValue :: "string \<Rightarrow> string"
  inputUpdate :: "msg \<Rightarrow> textinput \<Rightarrow> textinput"
  viewportUpdate :: "msg \<Rightarrow> viewport \<Rightarrow> viewport"
  spinnerUpdate :: "nat \<Rightarrow> nat"

datatype error = IndexOutOfRange

section \<open>String helpers of the Go standard library\<close>

text \<open>\<open>strings.HasPrefix\<close>, \<open>strings.Contains\<close>, \<open>strings.TrimSuffix\<close>, \<open>strings.Join\<close>.\<close>

fun hasPrefix :: "string \<Rightarrow> string \<Rightarrow> bool" where
  "hasPrefix s [] = True"
| "hasPrefix [] (p # ps) = False"
| "hasPrefix (c # cs) (p # ps) = (c = p \<and> hasPrefix cs ps)"

fun contains :: "string \<Rightarrow> string \<Rightarrow> bool" where
  "contains [] sub = (sub = [])"
| "contains (c # cs) sub = (hasPrefix (c # cs) sub \<or> contains cs sub)"

definition trimSuffix :: "string \<Rightarrow> string \<Rightarrow> string" where
  "trimSuffix s suffix =
     (if length suffix \<le> length s \<and> drop (length s - length suffix) s = suffix
      then take (length s - length suffix) s else s)"

fun joinStrings :: "string list \<Rightarrow> string \<Rightarrow> string" where
  "joinStrings [] sep = []"
| "joinStrings [x] sep = x"
| "joinStrings (x # y # ys) sep = x @ sep @ joinStrings (y # ys) sep"

text \<open>
  \<open>strconv.Atoi\<close>: an optional sign followed by at least one decimal digit, within the
  range of a 64-bit \<open>int\<close>; anything else is an error (\<open>None\<close>).
\<close>

definition isDigit :: "char \<Rightarrow> bool" where
  "isDigit c = ((48::nat) \<le> of_char c \<and> of_char c \<le> (57::nat))"

definition digitsValue :: "string \<Rightarrow> nat" where
  "digitsValue ds = foldl (\<lambda>acc c. 10 * acc + (of_char c - 48)) (0::nat) ds"

definition atoi :: "string \<Rightarrow> int option" where
  "atoi s =
     (let neg = (s \<noteq> [] \<and> hd s = CHR ''-'');
          ds = (if s \<noteq> [] \<and> (hd s = CHR ''-'' \<or> hd s = CHR ''+'') then tl s else s)
      in if ds = [] \<or> \<not> list_all isDigit ds then None
         else if neg then
           (if digitsValue ds \<le> 2 ^ 63 then Some (- int (digitsValue ds)) else None)
         else
           (if digitsValue ds < 2 ^ 63 then Some (int (digitsValue ds)) else None))"

text \<open>\<open>fmt.Sprintf("%d", n)\<close> for a positive \<open>n\<close> (the only use in the controller).\<close>

fun decimal :: "nat \<Rightarrow> string" where
  "decimal n =
     (if n < 10 then [char_of (48 + n)]
      else decimal (n div 10) @ [char_of (48 + n mod 10)])"

text \<open>The success marker scanned for in batch logs, as UTF-8 bytes.\<close>

definition successMarker :: string where
  "successMarker =
     [char_of (0xF0::nat), char_of (0x9F::nat), char_of (0x8E::nat), char_of (0x89::nat)]
     @ '' Installation completed successfully!''"

definition failureMarker :: string where
  "failureMarker = ''Error''"

section \<open>Wizard controller\<close>

definition createInputField :: "string \<Rightarrow> bool \<Rightarrow> field" where
  "createInputField lbl req =
     \<lparr> fType = fieldInput, label = lbl, input = newTextinput, required = req \<rparr>"

definition createButtonField :: "string \<Rightarrow> field" where
  "createButtonField lbl =
     \<lparr> fType = fieldButton, label = lbl, input = newTextinput, required = False \<rparr>"

definition setPlaceholder :: "string \<Rightarrow> field \<Rightarrow> field" where
  "setPlaceholder p f = f\<lparr>input := (input f)\<lparr>tiPlaceholder := p\<rparr>\<rparr>"

definition setValue :: "env \<Rightarrow> string \<Rightarrow> field \<Rightarrow> field" where
  "setValue env v f = f\<lparr>input := (input f)\<lparr>tiValue := inputSetValue env v\<rparr>\<rparr>"

definition setEchoPassword :: "field \<Rightarrow> field" where
  "setEchoPassword f = f\<lparr>input := (input f)\<lparr>tiEchoPassword := True\<rparr>\<rparr>"

text \<open>\<open>updateFocus\<close>: every text input is focused exactly when it sits at \<open>focusIndex\<close>.\<close>

definition updateFocus :: "model \<Rightarrow> model" where
  "updateFocus m =
     m\<lparr>fieldList :=
        map (\<lambda>(i, f). if fType f = fieldInput
                        then f\<lparr>input := (input f)\<lparr>tiFocused := (i = focusIndex m)\<rparr>\<rparr>
                        else f)
            (enumerate 0 (fieldList m))\<rparr>"

text \<open>
  The field lists that \<open>initScreen\<close> builds: the Yes/No pair of buttons, the two variants
  of the domain screen, and the e-mail screen, each prefilled from the configuration.
\<close>

definition yesNoButtons :: "field list" where
  "yesNoButtons = [createButtonField ''Yes'', createButtonField ''No'']"

definition hybridDomainFields :: "env \<Rightarrow> Config \<Rightarrow> field list" where
  "hybridDomainFields env cfg =
     [ (let f = setPlaceholder ''203.0.113.1 or myserver.example.com''
                  (createInputField ''Public IP or Domain'' True)
        in if DashboardDomain cfg \<noteq> [] then setValue env (DashboardDomain cfg) f
           else if getPublicIP env \<noteq> [] then setValue env (getPublicIP env) f
           else f),
       createButtonField ''Continue'' ]"

definition standardDomainFields :: "env \<Rightarrow> Config \<Rightarrow> field list" where
  "standardDomainFields env cfg =
     [ (let f = setPlaceholder ''example.com'' (createInputField ''Base Domain'' True)
        in if BaseDomain cfg \<noteq> [] then setValue env (BaseDomain cfg) f else f),
       (let f = setPlaceholder ''pangolin'' (createInputField ''Dashboard Subdomain'' False);
            subdomain = trimSuffix (DashboardDomain cfg) (''.'' @ BaseDomain cfg)
        in if DashboardDomain cfg \<noteq> [] \<and> BaseDomain cfg \<noteq> []
              \<and> subdomain \<noteq> DashboardDomain cfg
           then setValue env subdomain f else f),
       (let f = setPlaceholder ''admin@example.com''
                  (createInputField (''Let'' @ [char_of (39::nat)] @ ''s Encrypt Email'') True)
        in if LetsEncryptEmail cfg \<noteq> [] then setValue env (LetsEncryptEmail cfg) f else f),
       createButtonField ''Continue'' ]"

definition emailInputFields :: "env \<Rightarrow> Config \<Rightarrow> field list" where
  "emailInputFields env cfg =
     [ (let f = createInputField ''SMTP Host'' False
        in if EmailSMTPHost cfg \<noteq> [] then setValue env (EmailSMTPHost cfg) f else f),
       (let f = createInputField ''SMTP Port'' False
        in if EmailSMTPPort cfg > 0 then setValue env (decimal (nat (EmailSMTPPort cfg))) f
           else setValue env ''587'' f),
       (let f = createInputField ''SMTP Username'' False
        in if EmailSMTPUser cfg \<noteq> [] then setValue env (EmailSMTPUser cfg) f else f),
       (let f = setEchoPassword (createInputField ''SMTP Password'' False)
        in if EmailSMTPPass cfg \<noteq> [] then setValue env (EmailSMTPPass cfg) f else f),
       (let f = createInputField ''No-Reply Email'' False
        in if EmailNoReply cfg \<noteq> [] then setValue env (EmailNoReply cfg) f else f),
       createButtonField ''Continue'' ]"

text \<open>
  \<open>initScreen\<close>: the field list, focus index and error are reset, then rebuilt from the
  current screen and the configuration.
\<close>

definition initScreen :: "env \<Rightarrow> model \<Rightarrow> model" where
  "initScreen env m =
     (let m0 = m\<lparr>fieldList := [], focusIndex := 0, err := None\<rparr>;
          cfg = config m
      in updateFocus
        (case currentScreen m of
           welcomeScreen \<Rightarrow> m0
         | hybridModeScreen \<Rightarrow>
             m0\<lparr>fieldList := yesNoButtons, focusIndex := (if HybridMode cfg then 0 else 1)\<rparr>
         | hybridCredentialsScreen \<Rightarrow> m0\<lparr>fieldList := yesNoButtons\<rparr>
         | domainConfigScreen \<Rightarrow>
             (if HybridMode cfg then m0\<lparr>fieldList := hybridDomainFields env cfg\<rparr>
              else m0\<lparr>fieldList := standardDomainFields env cfg\<rparr>)
         | emailConfigScreen \<Rightarrow>
             m0\<lparr>fieldList := yesNoButtons, focusIndex := (if EnableEmail cfg then 0 else 1)\<rparr>
         | emailInputScreen \<Rightarrow> m0\<lparr>fieldList := emailInputFields env cfg\<rparr>
         | advancedConfigScreen \<Rightarrow> m0\<lparr>fieldList := yesNoButtons\<rparr>
         | containerScreen \<Rightarrow>
             m0\<lparr>fieldList := [createButtonField ''Docker'', createButtonField ''Podman''],
                focusIndex := (if InstallationContainerType cfg = Podman then 1 else 0)\<rparr>
         | installContainersScreen \<Rightarrow> m0\<lparr>fieldList := yesNoButtons\<rparr>
         | installScreen \<Rightarrow> m0
         | crowdsecScreen \<Rightarrow> m0\<lparr>fieldList := yesNoButtons\<rparr>
         | crowdsecManageScreen \<Rightarrow> m0\<lparr>fieldList := yesNoButtons\<rparr>
         | crowdsecInstallScreen \<Rightarrow> m0
         | setupTokenScreen \<Rightarrow> m0
         | completeScreen \<Rightarrow> m0))"

definition startInstallation :: "model \<Rightarrow> model \<times> cmd" where
  "startInstallation m = (m\<lparr>installing := True\<rparr>, RunInstallation)"

definition startCrowdsecInstallation :: "model \<Rightarrow> model \<times> cmd" where
  "startCrowdsecInstallation m = (m\<lparr>installing := True\<rparr>, RunCrowdsecInstallation)"

definition createConfigFilesOnly :: "model \<Rightarrow> model \<times> cmd" where
  "createConfigFilesOnly m = (m\<lparr>installing := True\<rparr>, RunConfigCreation)"

definition createConfigFilesAndProceed :: "model \<Rightarrow> model \<times> cmd" where
  "createConfigFilesAndProceed m = (m\<lparr>installing := True\<rparr>, RunConfigCreationAndProceed)"

text \<open>
  The block that copies the five SMTP inputs into the configuration; it occurs twice in
  the source (in \<open>handleSubmit\<close> and in \<open>nextScreen\<close>), guarded by \<open>len(m.fields) >= 5\<close>.
\<close>

definition saveEmailConfig :: "model \<Rightarrow> model" where
  "saveEmailConfig m =
     (if length (fieldList m) \<ge> 5 then
        m\<lparr>config := (config m)\<lparr>
             EmailSMTPHost := tiValue (input (fieldList m ! 0)),
             EmailSMTPPort := (case atoi (tiValue (input (fieldList m ! 1))) of
                                 Some port \<Rightarrow> port | None \<Rightarrow> 587),
             EmailSMTPUser := tiValue (input (fieldList m ! 2)),
             EmailSMTPPass := tiValue (input (fieldList m ! 3)),
             EmailNoReply := tiValue (input (fieldList m ! 4))\<rparr>\<rparr>
      else m)"

definition nextScreen :: "env \<Rightarrow> model \<Rightarrow> model \<times> cmd" where
  "nextScreen env m =
     (let nextScr = getNextScreen (currentScreen m) (lastChoice m) (config m);
          m1 = (if currentScreen m = emailInputScreen then saveEmailConfig m else m);
          m2 = m1\<lparr>currentScreen := nextScr\<rparr>
      in if nextScr = installScreen then startInstallation m2
         else if nextScr = crowdsecInstallScreen then startCrowdsecInstallation m2
         else if nextScr = completeScreen \<and> currentScreen m2 = completeScreen then (m2, Quit)
         else if nextScr = installContainersScreen
           then (initScreen env (m2\<lparr>currentScreen := nextScr\<rparr>), NoCmd)
         else if currentScreen m2 = installContainersScreen \<and> installing m2 = False then
           (if lastChoice m2 = 0 then startInstallation m2
            else if \<not> HybridMode (config m2)
              then (initScreen env (m2\<lparr>currentScreen := crowdsecScreen\<rparr>), NoCmd)
            else (initScreen env (m2\<lparr>currentScreen := setupTokenScreen\<rparr>), NoCmd))
         else (initScreen env m2, NoCmd))"

text \<open>
  \<open>handleNavigation\<close>: the source computes \<open>(focusIndex - 1 + len) % len\<close> on signed
  integers; with \<open>len > 0\<close> and a non-negative index this is \<open>(focusIndex + len - 1) mod len\<close>.
\<close>

definition handleNavigation :: "int \<Rightarrow> model \<Rightarrow> model \<times> cmd" where
  "handleNavigation direction m =
     (if length (fieldList m) = 0 then (m, NoCmd)
      else
        (updateFocus
           (m\<lparr>err := None,
              focusIndex :=
                (if direction > 0 then (focusIndex m + 1) mod length (fieldList m)
                 else (focusIndex m + length (fieldList m) - 1) mod length (fieldList m))\<rparr>),
         NoCmd))"

definition hasButtonFields :: "model \<Rightarrow> bool" where
  "hasButtonFields m = list_ex (\<lambda>f. fType f = fieldButton) (fieldList m)"

definition handleBack :: "env \<Rightarrow> model \<Rightarrow> model \<times> cmd" where
  "handleBack env m =
     (if currentScreen m = welcomeScreen then (m, Quit)
      else
        (let prevScreen = getPrevScreen (currentScreen m) (config m)
         in if prevScreen = currentScreen m then (m, Quit)
            else (initScreen env (m\<lparr>currentScreen := prevScreen\<rparr>), NoCmd)))"

text \<open>
  \<open>validateAndSaveDomainConfig\<close>: the first required field with an empty value stops the
  submission. Reading \<open>m.fields[i]\<close> beyond the end of the slice panics in Go; that is
  the error \<open>IndexOutOfRange\<close> here.
\<close>

definition validateAndSaveDomainConfig :: "env \<Rightarrow> model \<Rightarrow> error + (model \<times> cmd)" where
  "validateAndSaveDomainConfig env m =
     (case find (\<lambda>f. required f \<and> tiValue (input f) = []) (fieldList m) of
        Some f \<Rightarrow> Inr (m\<lparr>err := Some (label f @ '' is required'')\<rparr>, NoCmd)
      | None \<Rightarrow>
          (if HybridMode (config m) then
             (if length (fieldList m) < 1 then Inl IndexOutOfRange
              else
                (let dashboardDomain = tiValue (input (fieldList m ! 0))
                 in Inr (nextScreen env
                      (m\<lparr>config := (config m)\<lparr>DashboardDomain := dashboardDomain,
                                                InstallGerbil := True\<rparr>\<rparr>))))
           else
             (if length (fieldList m) < 3 then Inl IndexOutOfRange
              else
                (let baseDomain = tiValue (input (fieldList m ! 0));
                     subdomainIn = tiValue (input (fieldList m ! 1));
                     email = tiValue (input (fieldList m ! 2));
                     subdomain = (if subdomainIn = [] then ''pangolin'' else subdomainIn);
                     dashboardDomain = subdomain @ ''.'' @ baseDomain
                 in Inr (nextScreen env
                      (m\<lparr>config := (config m)\<lparr>BaseDomain := baseDomain,
                                                DashboardDomain := dashboardDomain,
                                                LetsEncryptEmail := email,
                                                InstallGerbil := True\<rparr>\<rparr>))))))"

definition handleSubmit :: "env \<Rightarrow> model \<Rightarrow> error + (model \<times> cmd)" where
  "handleSubmit env m =
     (if currentScreen m = domainConfigScreen then validateAndSaveDomainConfig env m
      else if currentScreen m = emailInputScreen then Inr (nextScreen env (saveEmailConfig m))
      else Inr (nextScreen env m))"

definition handleButtonPress :: "env \<Rightarrow> model \<Rightarrow> error + (model \<times> cmd)" where
  "handleButtonPress env m =
     (let m1 = m\<lparr>lastChoice := focusIndex m\<rparr>;
          yes = (focusIndex m = 0)
      in case currentScreen m1 of
           welcomeScreen \<Rightarrow> Inr (nextScreen env m1)
         | hybridModeScreen \<Rightarrow>
             Inr (nextScreen env (m1\<lparr>config := (config m1)\<lparr>HybridMode := yes\<rparr>\<rparr>))
         | hybridCredentialsScreen \<Rightarrow> Inr (nextScreen env m1)
         | domainConfigScreen \<Rightarrow> validateAndSaveDomainConfig env m1
         | emailConfigScreen \<Rightarrow>
             Inr (nextScreen env (m1\<lparr>config := (config m1)\<lparr>EnableEmail := yes\<rparr>\<rparr>))
         | emailInputScreen \<Rightarrow> handleSubmit env m1
         | advancedConfigScreen \<Rightarrow>
             Inr (nextScreen env (m1\<lparr>config := (config m1)\<lparr>EnableIPv6 := yes\<rparr>\<rparr>))
         | containerScreen \<Rightarrow>
             Inr (nextScreen env
               (m1\<lparr>config := (config m1)\<lparr>InstallationContainerType :=
                                    (if focusIndex m = 0 then Docker else Podman)\<rparr>\<rparr>))
         | installContainersScreen \<Rightarrow> Inr (createConfigFilesAndProceed m1)
         | crowdsecScreen \<Rightarrow>
             Inr (nextScreen env (m1\<lparr>config := (config m1)\<lparr>DoCrowdsecInstall := yes\<rparr>\<rparr>))
         | crowdsecManageScreen \<Rightarrow>
             Inr (nextScreen env
               (m1\<lparr>config := (config m1)\<lparr>DoCrowdsecInstall :=
                                    (if focusIndex m = 1 then False else True)\<rparr>\<rparr>))
         | setupTokenScreen \<Rightarrow> Inr (nextScreen env m1)
         | installScreen \<Rightarrow> Inr (m1, NoCmd)
         | crowdsecInstallScreen \<Rightarrow> Inr (m1, NoCmd)
         | completeScreen \<Rightarrow> Inr (m1, NoCmd))"

text \<open>
  \<open>handleEnter\<close>: \<open>m.fields[m.focusIndex]\<close> panics when the index is beyond the slice.
  The inner loop of the source looks for a button after the focused input.
\<close>

definition handleEnter :: "env \<Rightarrow> model \<Rightarrow> error + (model \<times> cmd)" where
  "handleEnter env m =
     (if length (fieldList m) = 0 then Inr (nextScreen env m)
      else if \<not> focusIndex m < length (fieldList m) then Inl IndexOutOfRange
      else
        (case fType (fieldList m ! focusIndex m) of
           fieldButton \<Rightarrow> handleButtonPress env m
         | fieldInput \<Rightarrow>
             (if focusIndex m < length (fieldList m) - 1 then Inr (handleNavigation 1 m)
              else if list_ex (\<lambda>f. fType f = fieldButton)
                        (drop (focusIndex m + 1) (fieldList m))
                then Inr (handleNavigation 1 m)
              else handleSubmit env m)))"

section \<open>The update function and the delivery of orchestrator events\<close>

definition focusedOnInput :: "model \<Rightarrow> bool" where
  "focusedOnInput m =
     (if focusIndex m < length (fieldList m)
         \<and> fType (fieldList m ! focusIndex m) = fieldInput
      then tiFocused (input (fieldList m ! focusIndex m)) else False)"

text \<open>
  The end of \<open>Update\<close>, reached by every message that did not return earlier: the focused
  text input and, on the install screen, the log viewport see the message.
\<close>

definition updateWidgets :: "env \<Rightarrow> msg \<Rightarrow> model \<Rightarrow> model \<times> cmd" where
  "updateWidgets env x m =
     (let m1 = (if focusIndex m < length (fieldList m)
                   \<and> fType (fieldList m ! focusIndex m) = fieldInput
                then m\<lparr>fieldList := (fieldList m)[focusIndex m :=
                         (fieldList m ! focusIndex m)\<lparr>input :=
                            inputUpdate env x (input (fieldList m ! focusIndex m))\<rparr>]\<rparr>
                else m);
          m2 = (if currentScreen m1 = installScreen
                then m1\<lparr>logsViewport := viewportUpdate env x (logsViewport m1)\<rparr>
                else m1)
      in (m2, WidgetCmds))"

definition newline :: string where
  "newline = [char_of (10::nat)]"

definition showLogs :: "model \<Rightarrow> model" where
  "showLogs m =
     m\<lparr>logsViewport := \<lparr> vpContent = joinStrings (installLogs m) newline,
                          vpAtBottom = True \<rparr>\<rparr>"

text \<open>The loop over a batch of lines: the first line carrying a marker decides.\<close>

fun scanLogs :: "string list \<Rightarrow> cmd" where
  "scanLogs [] = NoCmd"
| "scanLogs (l # ls) =
     (if contains l successMarker then Emit installCompleteMsg
      else if contains l failureMarker then Emit (installErrorMsg ''installation failed'')
      else scanLogs ls)"

fun Update :: "env \<Rightarrow> model \<Rightarrow> msg \<Rightarrow> error + (model \<times> cmd)" where
  "Update env m (WindowSizeMsg w h) =
     Inr (updateWidgets env (WindowSizeMsg w h) (m\<lparr>width := w, height := h, helpWidth := w\<rparr>))"
| "Update env m (KeyMsg k) =
     (case k of
        KeyQuit \<Rightarrow> Inr (m, Quit)
      | KeyHelp \<Rightarrow>
          (if \<not> focusedOnInput m then Inr (m\<lparr>showHelp := \<not> showHelp m\<rparr>, NoCmd)
           else Inr (updateWidgets env (KeyMsg k) m))
      | KeyBack \<Rightarrow>
          (if currentScreen m \<noteq> installScreen \<and> \<not> focusedOnInput m
           then Inr (handleBack env m)
           else Inr (updateWidgets env (KeyMsg k) m))
      | KeyEnter \<Rightarrow>
          (if currentScreen m \<noteq> installScreen then handleEnter env m
           else Inr (updateWidgets env (KeyMsg k) m))
      | KeyTab \<Rightarrow>
          (if currentScreen m \<noteq> installScreen then Inr (handleNavigation 1 m)
           else Inr (updateWidgets env (KeyMsg k) m))
      | KeyShiftTab \<Rightarrow>
          (if currentScreen m \<noteq> installScreen then Inr (handleNavigation (- 1) m)
           else Inr (updateWidgets env (KeyMsg k) m))
      | KeyUp \<Rightarrow> Inr (updateWidgets env (KeyMsg k) m)
      | KeyDown \<Rightarrow> Inr (updateWidgets env (KeyMsg k) m)
      | KeyLeft \<Rightarrow>
          (if currentScreen m \<noteq> installScreen \<and> \<not> focusedOnInput m \<and> hasButtonFields m
           then Inr (handleNavigation (- 1) m)
           else Inr (updateWidgets env (KeyMsg k) m))
      | KeyRight \<Rightarrow>
          (if currentScreen m \<noteq> installScreen \<and> \<not> focusedOnInput m \<and> hasButtonFields m
           then Inr (handleNavigation 1 m)
           else Inr (updateWidgets env (KeyMsg k) m))
      | KeyOther \<Rightarrow> Inr (updateWidgets env (KeyMsg k) m))"
| "Update env m (installStepMsg step) = Inr (m\<lparr>installStep := step\<rparr>, NoCmd)"
| "Update env m (installLogMsg l) =
     (let logs = installLogs m @ [l];
          kept = (if length logs > 200 then drop 1 logs else logs)
      in Inr (showLogs (m\<lparr>installLogs := kept\<rparr>), NoCmd))"
| "Update env m (installBatchLogsMsg ls) =
     (let logs = installLogs m @ ls;
          kept = (if length logs > 200 then drop (length logs - 200) logs else logs)
      in Inr (showLogs (m\<lparr>installLogs := kept\<rparr>), scanLogs ls))"
| "Update env m installCompleteMsg = Inr (m\<lparr>installing := False\<rparr>, NoCmd)"
| "Update env m (installErrorMsg e) = Inr (m\<lparr>installing := False, err := Some e\<rparr>, NoCmd)"
| "Update env m spinnerTickMsg =
     Inr (updateWidgets env spinnerTickMsg
            (if installing m then m\<lparr>spinner := spinnerUpdate env (spinner m)\<rparr> else m))"
| "Update env m otherMsg = Inr (updateWidgets env otherMsg m)"

text \<open>
  The runtime delivers a message to \<open>Update\<close> and then runs the returned command; a
  command \<open>Emit x\<close> produces the message \<open>x\<close>, which is delivered in turn (the two
  messages emitted by \<open>Update\<close> return no further command). \<open>tea.Sequence\<close> runs its
  steps strictly one after the other, each step yielding one message: a step sequence
  whose steps have produced the messages \<open>xs\<close> is the run \<open>runSequence env m xs\<close>.
\<close>

definition deliver :: "env \<Rightarrow> model \<Rightarrow> msg \<Rightarrow> error + model" where
  "deliver env m x =
     (case Update env m x of
        Inl e \<Rightarrow> Inl e
      | Inr (m1, c) \<Rightarrow>
          (case c of
             Emit y \<Rightarrow> (case Update env m1 y of Inl e \<Rightarrow> Inl e | Inr (m2, c2) \<Rightarrow> Inr m2)
           | _ \<Rightarrow> Inr m1))"

fun runSequence :: "env \<Rightarrow> model \<Rightarrow> msg list \<Rightarrow> error + model" where
  "runSequence env m [] = Inr m"
| "runSequence env m (x # xs) =
     (case deliver env m x of Inl e \<Rightarrow> Inl e | Inr m1 \<Rightarrow> runSequence env m1 xs)"

section \<open>States and collaborators used for evaluation\<close>

text \<open>
  \<open>initialModel\<close>: the state built at start-up, with the configuration that was loaded
  from disk (or the empty one). \<open>idleEnv\<close> is an environment in which no public address
  is detected, the text widget stores values as given, and the widgets ignore messages.
\<close>

definition initialModel :: "Config \<Rightarrow> model" where
  "initialModel cfg =
     \<lparr> currentScreen = welcomeScreen, config = cfg, fieldList = [], focusIndex = 0,
       err = None, spinner = 0, showHelp = False, width = 0, height = 0, helpWidth = 0,
       installing = False, lastChoice = 0, installLogs = [],
       logsViewport = \<lparr> vpContent = [], vpAtBottom = False \<rparr>, installStep = [] \<rparr>"

definition idleEnv :: env where
  "idleEnv = \<lparr> getPublicIP = [], inputSetValue = (\<lambda>s. s), inputUpdate = (\<lambda>x t. t),
     viewportUpdate = (\<lambda>x v. v), spinnerUpdate = Suc \<rparr>"

text \<open>
  \<open>installingModel\<close>: the controller on the install screen with the busy flag set, as
  \<open>startInstallation\<close> leaves it.
\<close>

definition installingModel :: model where
  "installingModel = (initialModel emptyConfig)\<lparr>currentScreen := installScreen, installing := True\<rparr>"

text \<open>
  \<open>typeInto i v\<close>: the operator has typed \<open>v\<close> into the text input at position \<open>i\<close>.
  The states below are screens as \<open>initScreen\<close> builds them, with some text typed in:
  the domain screen in standard mode (base domain and e-mail filled in, subdomain left
  blank), the domain screen in hybrid mode, the untouched domain screen, the
  security-agent management screen and the state that pressing "Yes" there leads to, a
  field list of two text inputs followed by one button with the focus on the second
  input, and a field list of a single text input.
\<close>

definition typeInto :: "nat \<Rightarrow> string \<Rightarrow> model \<Rightarrow> model" where
  "typeInto i v m =
     m\<lparr>fieldList := (fieldList m)[i :=
          (fieldList m ! i)\<lparr>input := (input (fieldList m ! i))\<lparr>tiValue := v\<rparr>\<rparr>]\<rparr>"

definition standardDomainModel :: model where
  "standardDomainModel =
     typeInto 2 ''admin@example.com'' (typeInto 0 ''example.com''
       (initScreen idleEnv ((initialModel emptyConfig)\<lparr>currentScreen := domainConfigScreen\<rparr>)))"

definition hybridDomainModel :: model where
  "hybridDomainModel =
     typeInto 0 ''203.0.113.1''
       (initScreen idleEnv
          ((initialModel (emptyConfig\<lparr>HybridMode := True\<rparr>))\<lparr>currentScreen := domainConfigScreen\<rparr>))"

text \<open>
  \<open>existingInstallConfig\<close>: a configuration as \<open>loadExistingConfig\<close> returns it for an
  installation at \<open>https://pangolin.example.com\<close>. \<open>hybridExistingModel\<close>: the domain
  screen after the operator of that installation has answered "Yes" to hybrid mode and
  typed a public address over the prefilled one.
\<close>

definition existingInstallConfig :: Config where
  "existingInstallConfig =
     emptyConfig\<lparr>DashboardDomain := ''pangolin.example.com'', BaseDomain := ''example.com'',
       LetsEncryptEmail := ''admin@example.com'', InstallationContainerType := Docker\<rparr>"

definition hybridExistingModel :: model where
  "hybridExistingModel =
     typeInto 0 ''203.0.113.1''
       (initScreen idleEnv
          ((initialModel (existingInstallConfig\<lparr>HybridMode := True\<rparr>))\<lparr>currentScreen :=
             domainConfigScreen\<rparr>))"

definition emptyDomainModel :: model where
  "emptyDomainModel =
     initScreen idleEnv ((initialModel emptyConfig)\<lparr>currentScreen := domainConfigScreen\<rparr>)"

definition crowdsecManageModel :: model where
  "crowdsecManageModel =
     initScreen idleEnv ((initialModel emptyConfig)\<lparr>currentScreen := crowdsecManageScreen\<rparr>)"

definition crowdsecInstallingModel :: model where
  "crowdsecInstallingModel =
     crowdsecManageModel\<lparr>currentScreen := crowdsecInstallScreen,
       config := emptyConfig\<lparr>DoCrowdsecInstall := True\<rparr>, installing := True\<rparr>"

definition twoInputsOneButton :: model where
  "twoInputsOneButton =
     updateFocus ((initialModel emptyConfig)\<lparr>currentScreen := emailInputScreen,
       fieldList := [createInputField ''SMTP Host'' False, createInputField ''SMTP Port'' False,
                     createButtonField ''Continue''],
       focusIndex := 1\<rparr>)"

definition oneInputNoButton :: model where
  "oneInputNoButton =
     updateFocus ((initialModel emptyConfig)\<lparr>currentScreen := emailInputScreen,
       fieldList := [createInputField ''SMTP Host'' False], focusIndex := 0\<rparr>)"

section \<open>Frame lemmas: what each operation leaves alone\<close>

lemma updateFocus_frame [simp]:
  "currentScreen (updateFocus m) = currentScreen m"
  "config (updateFocus m) = config m"
  "focusIndex (updateFocus m) = focusIndex m"
  "err (updateFocus m) = err m"
  "installing (updateFocus m) = installing m"
  "lastChoice (updateFocus m) = lastChoice m"
  "installLogs (updateFocus m) = installLogs m"
  "length (fieldList (updateFocus m)) = length (fieldList m)"
  by (simp_all add: updateFocus_def)

lemma initScreen_frame [simp]:
  "currentScreen (initScreen env m) = currentScreen m"
  "config (initScreen env m) = config m"
  "installing (initScreen env m) = installing m"
  "lastChoice (initScreen env m) = lastChoice m"
  "installLogs (initScreen env m) = installLogs m"
  "err (initScreen env m) = None"
  by (simp_all add: initScreen_def Let_def split: screenID.splits)

lemma installLogs_showLogs [simp]: "installLogs (showLogs m) = installLogs m"
  by (simp add: showLogs_def)

lemma installLogs_saveEmailConfig [simp]: "installLogs (saveEmailConfig m) = installLogs m"
  by (simp add: saveEmailConfig_def)

lemma installLogs_nextScreen [simp]: "installLogs (fst (nextScreen env m)) = installLogs m"
  by (simp add: nextScreen_def Let_def startInstallation_def startCrowdsecInstallation_def)

lemma installLogs_handleNavigation [simp]:
  "installLogs (fst (handleNavigation d m)) = installLogs m"
  by (simp add: handleNavigation_def)

lemma installLogs_handleBack [simp]: "installLogs (fst (handleBack env m)) = installLogs m"
  by (simp add: handleBack_def Let_def)

lemma installLogs_updateWidgets [simp]:
  "installLogs (fst (updateWidgets env x m)) = installLogs m"
  by (simp add: updateWidgets_def Let_def)

lemma installLogs_validate:
  "validateAndSaveDomainConfig env m = Inr (m', c) \<Longrightarrow> installLogs m' = installLogs m"
  by (auto simp add: validateAndSaveDomainConfig_def Let_def
      split: option.splits if_splits dest!: arg_cong [where f = "\<lambda>p. installLogs (fst p)"])

lemma installLogs_handleSubmit:
  "handleSubmit env m = Inr (m', c) \<Longrightarrow> installLogs m' = installLogs m"
  by (auto simp add: handleSubmit_def split: if_splits dest: installLogs_validate
      dest!: arg_cong [where f = "\<lambda>p. installLogs (fst p)"])

lemma installLogs_handleButtonPress:
  "handleButtonPress env m = Inr (m', c) \<Longrightarrow> installLogs m' = installLogs m"
  by (auto simp add: handleButtonPress_def Let_def createConfigFilesAndProceed_def
      split: screenID.splits
      dest: installLogs_validate installLogs_handleSubmit
      dest!: arg_cong [where f = "\<lambda>p. installLogs (fst p)"])

lemma installLogs_handleEnter:
  "handleEnter env m = Inr (m', c) \<Longrightarrow> installLogs m' = installLogs m"
  by (auto simp add: handleEnter_def split: if_splits fieldType.splits
      dest: installLogs_handleButtonPress installLogs_handleSubmit
      dest!: arg_cong [where f = "\<lambda>p. installLogs (fst p)"])

lemma saveEmailConfig_frame [simp]:
  "DashboardDomain (config (saveEmailConfig m)) = DashboardDomain (config m)"
  "BaseDomain (config (saveEmailConfig m)) = BaseDomain (config m)"
  "HybridMode (config (saveEmailConfig m)) = HybridMode (config m)"
  by (simp_all add: saveEmailConfig_def)

lemma nextScreen_domain_frame [simp]:
  "DashboardDomain (config (fst (nextScreen env m))) = DashboardDomain (config m)"
  "BaseDomain (config (fst (nextScreen env m))) = BaseDomain (config m)"
  by (simp_all add: nextScreen_def Let_def startInstallation_def startCrowdsecInstallation_def)

lemma updateWidgets_frame [simp]:
  "currentScreen (fst (updateWidgets env x m)) = currentScreen m"
  "config (fst (updateWidgets env x m)) = config m"
  "focusIndex (fst (updateWidgets env x m)) = focusIndex m"
  "installing (fst (updateWidgets env x m)) = installing m"
  "err (fst (updateWidgets env x m)) = err m"
  "snd (updateWidgets env x m) = WidgetCmds"
  by (simp_all add: updateWidgets_def Let_def)

lemma nextScreen_enters_install:
  "getNextScreen (currentScreen m) (lastChoice m) (config m) = installScreen \<Longrightarrow>
     nextScreen env m = (m\<lparr>currentScreen := installScreen, installing := True\<rparr>, RunInstallation)"
  by (cases "currentScreen m")
     (auto simp add: nextScreen_def Let_def startInstallation_def split: if_splits)

lemma nextScreen_enters_crowdsecInstall:
  "getNextScreen (currentScreen m) (lastChoice m) (config m) = crowdsecInstallScreen \<Longrightarrow>
     nextScreen env m
       = (m\<lparr>currentScreen := crowdsecInstallScreen, installing := True\<rparr>,
          RunCrowdsecInstallation)"
  by (cases "currentScreen m")
     (auto simp add: nextScreen_def Let_def startCrowdsecInstallation_def split: if_splits)

lemma required_updateFocus [simp]:
  "map required (fieldList (updateFocus m)) = map required (fieldList m)"
  by (auto simp add: updateFocus_def list_eq_iff_nth_eq nth_enumerate_eq)

lemma required_only_on_domain_screen:
  assumes "True \<in> set (map required (fieldList (initScreen env m)))"
  shows "currentScreen m = domainConfigScreen"
proof (rule ccontr)
  assume "currentScreen m \<noteq> domainConfigScreen"
  then have "map required (fieldList (initScreen env m))
      = replicate (length (fieldList (initScreen env m))) False"
    by (cases "currentScreen m")
       (simp_all add: initScreen_def Let_def yesNoButtons_def emailInputFields_def
          createButtonField_def createInputField_def setValue_def setEchoPassword_def)
  with assms show False
    by (metis in_set_replicate)
qed

section \<open>The evaluation states, computed\<close>

lemma standardDomainModel_fields:
  "fieldList standardDomainModel =
    [ \<lparr> fType = fieldInput, label = ''Base Domain'',
        input = \<lparr> tiValue = ''example.com'', tiFocused = True,
                  tiPlaceholder = ''example.com'', tiEchoPassword = False \<rparr>,
        required = True \<rparr>,
      \<lparr> fType = fieldInput, label = ''Dashboard Subdomain'',
        input = \<lparr> tiValue = [], tiFocused = False,
                  tiPlaceholder = ''pangolin'', tiEchoPassword = False \<rparr>,
        required = False \<rparr>,
      \<lparr> fType = fieldInput, label = ''Let'' @ [char_of (39::nat)] @ ''s Encrypt Email'',
        input = \<lparr> tiValue = ''admin@example.com'', tiFocused = False,
                  tiPlaceholder = ''admin@example.com'', tiEchoPassword = False \<rparr>,
        required = True \<rparr>,
      \<lparr> fType = fieldButton, label = ''Continue'', input = newTextinput, required = False \<rparr> ]"
  "config standardDomainModel = emptyConfig"
  by (simp_all add: standardDomainModel_def typeInto_def initScreen_def initialModel_def
      emptyConfig_def updateFocus_def standardDomainFields_def createInputField_def
      createButtonField_def setPlaceholder_def setValue_def newTextinput_def enumerate_eq_zip
      upt_rec Let_def)

lemma hybridDomainModel_fields:
  "fieldList hybridDomainModel =
    [ \<lparr> fType = fieldInput, label = ''Public IP or Domain'',
        input = \<lparr> tiValue = ''203.0.113.1'', tiFocused = True,
                  tiPlaceholder = ''203.0.113.1 or myserver.example.com'',
                  tiEchoPassword = False \<rparr>,
        required = True \<rparr>,
      \<lparr> fType = fieldButton, label = ''Continue'', input = newTextinput, required = False \<rparr> ]"
  "config hybridDomainModel = emptyConfig\<lparr>HybridMode := True\<rparr>"
  by (simp_all add: hybridDomainModel_def typeInto_def initScreen_def initialModel_def
      emptyConfig_def updateFocus_def hybridDomainFields_def createInputField_def
      createButtonField_def setPlaceholder_def setValue_def newTextinput_def enumerate_eq_zip
      upt_rec idleEnv_def Let_def)

lemma hybridExistingModel_fields:
  "fieldList hybridExistingModel =
    [ \<lparr> fType = fieldInput, label = ''Public IP or Domain'',
        input = \<lparr> tiValue = ''203.0.113.1'', tiFocused = True,
                  tiPlaceholder = ''203.0.113.1 or myserver.example.com'',
                  tiEchoPassword = False \<rparr>,
        required = True \<rparr>,
      \<lparr> fType = fieldButton, label = ''Continue'', input = newTextinput, required = False \<rparr> ]"
  "config hybridExistingModel = existingInstallConfig\<lparr>HybridMode := True\<rparr>"
  "currentScreen hybridExistingModel = domainConfigScreen"
  by (simp_all add: hybridExistingModel_def existingInstallConfig_def typeInto_def
      initScreen_def initialModel_def
      emptyConfig_def updateFocus_def hybridDomainFields_def createInputField_def
      createButtonField_def setPlaceholder_def setValue_def newTextinput_def enumerate_eq_zip
      upt_rec idleEnv_def Let_def)

lemma emptyDomainModel_fields:
  "fieldList emptyDomainModel =
    [ \<lparr> fType = fieldInput, label = ''Base Domain'',
        input = \<lparr> tiValue = [], tiFocused = True,
                  tiPlaceholder = ''example.com'', tiEchoPassword = False \<rparr>,
        required = True \<rparr>,
      \<lparr> fType = fieldInput, label = ''Dashboard Subdomain'',
        input = \<lparr> tiValue = [], tiFocused = False,
                  tiPlaceholder = ''pangolin'', tiEchoPassword = False \<rparr>,
        required = False \<rparr>,
      \<lparr> fType = fieldInput, label = ''Let'' @ [char_of (39::nat)] @ ''s Encrypt Email'',
        input = \<lparr> tiValue = [], tiFocused = False,
                  tiPlaceholder = ''admin@example.com'', tiEchoPassword = False \<rparr>,
        required = True \<rparr>,
      \<lparr> fType = fieldButton, label = ''Continue'', input = newTextinput, required = False \<rparr> ]"
  "config emptyDomainModel = emptyConfig"
  "currentScreen emptyDomainModel = domainConfigScreen"
  by (simp_all add: emptyDomainModel_def initScreen_def initialModel_def
      emptyConfig_def updateFocus_def standardDomainFields_def createInputField_def
      createButtonField_def setPlaceholder_def setValue_def newTextinput_def enumerate_eq_zip
      upt_rec Let_def)

section \<open>Only a batch of log lines makes the controller emit a message\<close>

lemma nextScreen_no_emit: "snd (nextScreen env m) \<noteq> Emit y"
  by (simp add: nextScreen_def Let_def startInstallation_def startCrowdsecInstallation_def)

lemma validate_no_emit: "validateAndSaveDomainConfig env m = Inr (m', c) \<Longrightarrow> c \<noteq> Emit y"
  using nextScreen_no_emit
  by (auto simp add: validateAndSaveDomainConfig_def Let_def split: option.splits if_splits
      dest!: arg_cong [where f = snd])

lemma handleSubmit_no_emit: "handleSubmit env m = Inr (m', c) \<Longrightarrow> c \<noteq> Emit y"
  using nextScreen_no_emit
  by (auto simp add: handleSubmit_def split: if_splits dest: validate_no_emit
      dest!: arg_cong [where f = snd])

lemma handleButtonPress_no_emit: "handleButtonPress env m = Inr (m', c) \<Longrightarrow> c \<noteq> Emit y"
  using nextScreen_no_emit
  by (auto simp add: handleButtonPress_def Let_def createConfigFilesAndProceed_def
      split: screenID.splits dest: validate_no_emit handleSubmit_no_emit
      dest!: arg_cong [where f = snd])

lemma handleEnter_no_emit: "handleEnter env m = Inr (m', c) \<Longrightarrow> c \<noteq> Emit y"
  using nextScreen_no_emit
  by (auto simp add: handleEnter_def handleNavigation_def split: if_splits fieldType.splits
      dest: handleButtonPress_no_emit handleSubmit_no_emit
      dest!: arg_cong [where f = snd])

lemma Update_emit_only_batch:
  assumes "Update env m x = Inr (m', Emit y)"
  shows "\<exists>ls. x = installBatchLogsMsg ls"
proof (cases x)
  case (KeyMsg k)
  then have False
    using assms handleEnter_no_emit [of env m m' "Emit y" y]
    by (cases k)
       (auto simp add: handleBack_def handleNavigation_def updateWidgets_def Let_def
          split: if_splits)
  then show ?thesis ..
qed (use assms in \<open>auto simp add: updateWidgets_def Let_def split: if_splits\<close>)

section \<open>Lemmas on the log sink\<close>

lemma deliver_installLogMsg:
  "deliver env m (installLogMsg l) =
     Inr (showLogs (m\<lparr>installLogs :=
            (if length (installLogs m) \<ge> 200 then drop 1 (installLogs m @ [l])
             else installLogs m @ [l])\<rparr>))"
  by (simp add: deliver_def Let_def)

lemma runSequence_single_logs:
  "length (installLogs m) \<le> 200 \<Longrightarrow>
   \<exists>m1. runSequence env m (map installLogMsg ls) = Inr m1
       \<and> installLogs m1 = drop (length (installLogs m @ ls) - 200) (installLogs m @ ls)
       \<and> installing m1 = installing m \<and> err m1 = err m
       \<and> currentScreen m1 = currentScreen m \<and> config m1 = config m"
proof (induction ls arbitrary: m)
  case Nil
  then show ?case by simp
next
  case (Cons l ls)
  let ?m = "showLogs (m\<lparr>installLogs :=
            (if length (installLogs m) \<ge> 200 then drop 1 (installLogs m @ [l])
             else installLogs m @ [l])\<rparr>)"
  have len: "length (installLogs ?m) \<le> 200" using Cons.prems by simp
  from Cons.IH [OF len] obtain m1 where
    run: "runSequence env ?m (map installLogMsg ls) = Inr m1" and
    logs: "installLogs m1 = drop (length (installLogs ?m @ ls) - 200) (installLogs ?m @ ls)" and
    rest: "installing m1 = installing ?m" "err m1 = err ?m"
      "currentScreen m1 = currentScreen ?m" "config m1 = config ?m"
    by blast
  have "runSequence env m (map installLogMsg (l # ls)) = Inr m1"
    using run by (simp add: deliver_installLogMsg)
  moreover have "drop (length (installLogs ?m @ ls) - 200) (installLogs ?m @ ls)
      = drop (length (installLogs m @ l # ls) - 200) (installLogs m @ l # ls)"
  proof (cases "length (installLogs m) \<ge> 200")
    case True
    then have eq: "length (installLogs m) = 200" using Cons.prems by simp
    then obtain a as where as: "installLogs m = a # as" by (cases "installLogs m") auto
    show ?thesis using eq as by simp
  next
    case False
    then show ?thesis by simp
  qed
  ultimately show ?case using logs rest by (simp add: showLogs_def)
qed

lemma scanLogs_cases:
  "scanLogs ls = NoCmd \<or> scanLogs ls = Emit installCompleteMsg
    \<or> scanLogs ls = Emit (installErrorMsg ''installation failed'')"
  by (induction ls) auto

lemma deliver_batch_logs:
  "\<exists>m2. deliver env m (installBatchLogsMsg ls) = Inr m2
      \<and> installLogs m2 = drop (length (installLogs m @ ls) - 200) (installLogs m @ ls)"
  using scanLogs_cases [of ls]
  by (auto simp add: deliver_def Let_def)

lemma Update_sink_bound:
  assumes "Update env m x = Inr (m', c)" and "length (installLogs m) \<le> 200"
  shows "length (installLogs m') \<le> 200"
proof (cases x)
  case (KeyMsg k)
  have "installLogs m' = installLogs m"
    using assms(1) KeyMsg
    by (cases k)
       (auto split: if_splits dest: installLogs_handleEnter
          dest!: arg_cong [where f = "\<lambda>p. installLogs (fst p)"])
  then show ?thesis using assms(2) by simp
next
  case (installLogMsg l)
  then show ?thesis using assms by (auto simp add: Let_def split: if_splits)
next
  case (installBatchLogsMsg ls)
  then show ?thesis using assms by (auto simp add: Let_def split: if_splits)
qed (use assms in \<open>auto split: if_splits dest!: arg_cong [where f = "\<lambda>p. installLogs (fst p)"]\<close>)

lemma deliver_sink_bound:
  assumes "deliver env m x = Inr m'" and "length (installLogs m) \<le> 200"
  shows "length (installLogs m') \<le> 200"
  using assms
  by (auto simp add: deliver_def split: sum.splits cmd.splits prod.splits
      dest: Update_sink_bound)

lemma runSequence_sink_bound:
  "runSequence env m xs = Inr m' \<Longrightarrow> length (installLogs m) \<le> 200
     \<Longrightarrow> length (installLogs m') \<le> 200"
  by (induction xs arbitrary: m) (auto split: sum.splits dest: deliver_sink_bound)

lemma scanLogs_first_marker:
  "\<forall>p\<in>set pre. \<not> contains p successMarker \<and> \<not> contains p failureMarker \<Longrightarrow>
   scanLogs (pre @ l # post) =
     (if contains l successMarker then Emit installCompleteMsg
      else if contains l failureMarker then Emit (installErrorMsg ''installation failed'')
      else scanLogs post)"
  by (induction pre) auto

lemma runSequence_append:
  "runSequence env m (xs @ ys) =
     (case runSequence env m xs of Inl e \<Rightarrow> Inl e | Inr m1 \<Rightarrow> runSequence env m1 ys)"
  by (induction xs arbitrary: m) (auto split: sum.splits)

lemma runSequence_logs_frame:
  "\<exists>m1. runSequence env m (map installLogMsg ls) = Inr m1
       \<and> installing m1 = installing m \<and> err m1 = err m
       \<and> currentScreen m1 = currentScreen m \<and> config m1 = config m"
proof (induction ls arbitrary: m)
  case Nil
  then show ?case by simp
next
  case (Cons l ls)
  let ?m = "showLogs (m\<lparr>installLogs :=
            (if length (installLogs m) \<ge> 200 then drop 1 (installLogs m @ [l])
             else installLogs m @ [l])\<rparr>)"
  from Cons.IH [of ?m] obtain m1 where
    "runSequence env ?m (map installLogMsg ls) = Inr m1"
    "installing m1 = installing ?m" "err m1 = err ?m"
    "currentScreen m1 = currentScreen ?m" "config m1 = config ?m"
    by blast
  then show ?case
    by (simp add: deliver_installLogMsg showLogs_def)
qed

section \<open>Screen graph: inverse property and fixed points\<close>

text \<open>
  Claim C1, as stated, fails: \<open>prev (next S0 choice C) C = S0\<close> does not hold for every
  screen, choice and configuration. The step from the setup-token screen to the final
  screen cannot be undone (the final screen is its own predecessor); declining the
  security agent leads to the setup-token screen, whose predecessor is the install
  screen; a configuration that disagrees with the choice (hybrid mode set, choice "No")
  sends back-navigation through the credentials screen; and the security-agent install
  screen has no case in \<open>getPrevScreen\<close> and falls back to the welcome screen.
\<close>

theorem next_prev_inverse_counterexample:
  "getNextScreen setupTokenScreen 0 emptyConfig = completeScreen
   \<and> getPrevScreen completeScreen emptyConfig = completeScreen
   \<and> getNextScreen crowdsecScreen 1 emptyConfig = setupTokenScreen
   \<and> getPrevScreen setupTokenScreen emptyConfig = installScreen
   \<and> getNextScreen hybridModeScreen 1 (emptyConfig\<lparr>HybridMode := True\<rparr>) = domainConfigScreen
   \<and> getPrevScreen domainConfigScreen (emptyConfig\<lparr>HybridMode := True\<rparr>)
        = hybridCredentialsScreen
   \<and> getNextScreen crowdsecManageScreen 0 (emptyConfig\<lparr>DoCrowdsecInstall := True\<rparr>)
        = crowdsecInstallScreen
   \<and> getPrevScreen crowdsecInstallScreen (emptyConfig\<lparr>DoCrowdsecInstall := True\<rparr>)
        = welcomeScreen"
  by (simp add: emptyConfig_def)

text \<open>
  Claim C1, amended: for every screen \<open>S0\<close> other than the security-agent management
  screen, the security-agent install screen and the setup-token screen, and for every
  choice and configuration that agree with what the controller has recorded when it
  leaves \<open>S0\<close> (on the hybrid-mode question a choice other than "Yes" goes with standard
  mode; the credentials screen is left in hybrid mode; on the e-mail question a choice
  other than "Yes" goes with standard mode and e-mail disabled; the e-mail input screen
  is left in standard mode with e-mail enabled; the install screen in hybrid mode has no
  security agent selected; the security-agent question is answered "Yes"), the previous
  screen of the next screen is \<open>S0\<close> again.
\<close>

theorem next_prev_inverse:
  assumes "S0 \<noteq> crowdsecManageScreen" and "S0 \<noteq> crowdsecInstallScreen"
    and "S0 \<noteq> setupTokenScreen"
    and "S0 = hybridModeScreen \<Longrightarrow> choice \<noteq> 0 \<Longrightarrow> \<not> HybridMode C"
    and "S0 = hybridCredentialsScreen \<Longrightarrow> HybridMode C"
    and "S0 = emailConfigScreen \<Longrightarrow> choice \<noteq> 0 \<Longrightarrow> \<not> HybridMode C \<and> \<not> EnableEmail C"
    and "S0 = emailInputScreen \<Longrightarrow> \<not> HybridMode C \<and> EnableEmail C"
    and "S0 = installScreen \<Longrightarrow> HybridMode C \<Longrightarrow> \<not> DoCrowdsecInstall C"
    and "S0 = crowdsecScreen \<Longrightarrow> choice = 0"
  shows "getPrevScreen (getNextScreen S0 choice C) C = S0"
  using assms by (cases S0) auto

theorem next_prev_inverse_witness:
  "getPrevScreen (getNextScreen hybridModeScreen 1 emptyConfig) emptyConfig = hybridModeScreen
   \<and> getPrevScreen (getNextScreen emailInputScreen 0 (emptyConfig\<lparr>EnableEmail := True\<rparr>))
        (emptyConfig\<lparr>EnableEmail := True\<rparr>) = emailInputScreen"
proof
  show "getPrevScreen (getNextScreen hybridModeScreen 1 emptyConfig) emptyConfig
      = hybridModeScreen"
    by (rule next_prev_inverse) (simp_all add: emptyConfig_def)
  show "getPrevScreen (getNextScreen emailInputScreen 0 (emptyConfig\<lparr>EnableEmail := True\<rparr>))
        (emptyConfig\<lparr>EnableEmail := True\<rparr>) = emailInputScreen"
    by (rule next_prev_inverse) (simp_all add: emptyConfig_def)
qed

text \<open>
  Claim C9: the welcome screen is a fixed point of \<open>getPrevScreen\<close> and the final screen
  is a fixed point of \<open>getNextScreen\<close>, for every configuration and choice. Going back
  from the welcome screen, or from any screen that is its own predecessor, leaves the
  state as it is and returns the quit command; from every other screen going back moves
  to the predecessor and does not quit. The Esc key on the welcome screen, with no text
  input focused, is such a back step.
\<close>

theorem terminal_fixed_points:
  "getPrevScreen welcomeScreen C = welcomeScreen
   \<and> getNextScreen completeScreen choice C = completeScreen
   \<and> (currentScreen m = welcomeScreen \<longrightarrow> handleBack env m = (m, Quit))
   \<and> (getPrevScreen (currentScreen m) (config m) = currentScreen m
        \<longrightarrow> handleBack env m = (m, Quit))
   \<and> (getPrevScreen (currentScreen m) (config m) \<noteq> currentScreen m
        \<longrightarrow> snd (handleBack env m) = NoCmd
          \<and> currentScreen (fst (handleBack env m)) = getPrevScreen (currentScreen m) (config m))
   \<and> (currentScreen m = welcomeScreen \<and> \<not> focusedOnInput m
        \<longrightarrow> Update env m (KeyMsg KeyBack) = Inr (m, Quit))"
proof -
  have "getPrevScreen (currentScreen m) (config m) \<noteq> currentScreen m
      \<Longrightarrow> currentScreen m \<noteq> welcomeScreen"
    by auto
  then show ?thesis
    by (auto simp add: handleBack_def Let_def)
qed

theorem terminal_fixed_points_witness:
  "handleBack idleEnv (initialModel emptyConfig) = (initialModel emptyConfig, Quit)
   \<and> handleBack idleEnv ((initialModel emptyConfig)\<lparr>currentScreen := completeScreen\<rparr>)
       = ((initialModel emptyConfig)\<lparr>currentScreen := completeScreen\<rparr>, Quit)
   \<and> currentScreen (fst (handleBack idleEnv
         ((initialModel emptyConfig)\<lparr>currentScreen := hybridModeScreen\<rparr>))) = welcomeScreen
   \<and> Update idleEnv (initialModel emptyConfig) (KeyMsg KeyBack)
       = Inr (initialModel emptyConfig, Quit)"
  using terminal_fixed_points [of emptyConfig 0 "initialModel emptyConfig" idleEnv]
    terminal_fixed_points [of emptyConfig 0
      "(initialModel emptyConfig)\<lparr>currentScreen := completeScreen\<rparr>" idleEnv]
    terminal_fixed_points [of emptyConfig 0
      "(initialModel emptyConfig)\<lparr>currentScreen := hybridModeScreen\<rparr>" idleEnv]
  by (simp add: initialModel_def focusedOnInput_def)

section \<open>Log sink\<close>

text \<open>
  Claim C6: the log sink never retains more than 200 lines. Starting from a sink within
  the bound (the initial sink is empty), every run of messages of any kind leaves it
  within the bound; appending the lines \<open>ls\<close> one at a time leaves exactly the last 200
  lines of the old contents followed by \<open>ls\<close>, in arrival order, which for more than 200
  appended lines are the last 200 of \<open>ls\<close>; and delivering \<open>ls\<close> as one batch leaves the
  same contents as the sequential single-line appends.
\<close>

theorem log_sink_bounded:
  assumes "length (installLogs m) \<le> 200"
  shows "(\<forall>xs m'. runSequence env m xs = Inr m' \<longrightarrow> length (installLogs m') \<le> 200)
    \<and> (\<exists>m1 m2. runSequence env m (map installLogMsg ls) = Inr m1
          \<and> deliver env m (installBatchLogsMsg ls) = Inr m2
          \<and> installLogs m2 = installLogs m1
          \<and> installLogs m1 = drop (length (installLogs m @ ls) - 200) (installLogs m @ ls)
          \<and> (200 < length ls \<longrightarrow> installLogs m1 = drop (length ls - 200) ls
                \<and> length (installLogs m1) = 200))"
proof -
  from runSequence_single_logs [OF assms, of env ls] obtain m1 where
    m1: "runSequence env m (map installLogMsg ls) = Inr m1"
      "installLogs m1 = drop (length (installLogs m @ ls) - 200) (installLogs m @ ls)"
    by blast
  from deliver_batch_logs [of env m ls] obtain m2 where
    m2: "deliver env m (installBatchLogsMsg ls) = Inr m2"
      "installLogs m2 = drop (length (installLogs m @ ls) - 200) (installLogs m @ ls)"
    by blast
  have last: "200 < length ls \<Longrightarrow> installLogs m1 = drop (length ls - 200) ls
      \<and> length (installLogs m1) = 200"
    using m1(2) assms by simp
  show ?thesis
    using m1 m2 last assms by (auto dest: runSequence_sink_bound)
qed

theorem log_sink_bounded_witness:
  "\<exists>m1 m2. runSequence idleEnv (initialModel emptyConfig)
               (map installLogMsg [''one'', ''two'', ''three'']) = Inr m1
     \<and> deliver idleEnv (initialModel emptyConfig)
               (installBatchLogsMsg [''one'', ''two'', ''three'']) = Inr m2
     \<and> installLogs m2 = installLogs m1
     \<and> installLogs m1 = [''one'', ''two'', ''three'']
     \<and> (\<exists>m3. runSequence idleEnv (initialModel emptyConfig)
               (map installLogMsg (map decimal [0..<203])) = Inr m3
           \<and> installLogs m3 = map decimal [3..<203]
           \<and> length (installLogs m3) = 200)"
proof -
  have len: "length (installLogs (initialModel emptyConfig)) \<le> 200"
    by (simp add: initialModel_def)
  from log_sink_bounded [OF len, of idleEnv "[''one'', ''two'', ''three'']"]
  obtain m1 m2 where small:
    "runSequence idleEnv (initialModel emptyConfig)
       (map installLogMsg [''one'', ''two'', ''three'']) = Inr m1"
    "deliver idleEnv (initialModel emptyConfig)
       (installBatchLogsMsg [''one'', ''two'', ''three'']) = Inr m2"
    "installLogs m2 = installLogs m1"
    "installLogs m1 = [''one'', ''two'', ''three'']"
    by (auto simp add: initialModel_def)
  from log_sink_bounded [OF len, of idleEnv "map decimal [0..<203]"]
  obtain m3 where large:
    "runSequence idleEnv (initialModel emptyConfig)
       (map installLogMsg (map decimal [0..<203])) = Inr m3"
    "installLogs m3 = drop 3 (map decimal [0..<203])"
    "length (installLogs m3) = 200"
    by auto
  have "drop 3 (map decimal [0..<203]) = map decimal [3..<203]"
    by (simp add: drop_map del: decimal.simps)
  with small large show ?thesis by metis
qed

text \<open>
  Claim C10: a single-line log event only appends the line to the sink (dropping the
  oldest line beyond 200) and resets the viewport to the joined lines, scrolled to the
  bottom. The busy flag, the error state and the current screen are unchanged and no
  command is returned, whatever the line contains. The only messages on which \<open>Update\<close>
  returns a command that emits a message are batch-log events, where the command is the
  result of scanning the batch.
\<close>

theorem single_log_event_frame:
  "Update env m (installLogMsg l) =
     Inr (m\<lparr>installLogs :=
              (if length (installLogs m @ [l]) > 200 then drop 1 (installLogs m @ [l])
               else installLogs m @ [l]),
            logsViewport :=
              \<lparr> vpContent = joinStrings
                   (if length (installLogs m @ [l]) > 200 then drop 1 (installLogs m @ [l])
                    else installLogs m @ [l]) newline,
                vpAtBottom = True \<rparr>\<rparr>, NoCmd)
   \<and> (\<forall>m' c. Update env m (installLogMsg l) = Inr (m', c) \<longrightarrow>
          installing m' = installing m \<and> err m' = err m
          \<and> currentScreen m' = currentScreen m \<and> c = NoCmd)
   \<and> (\<forall>x m' y. Update env m x = Inr (m', Emit y) \<longrightarrow>
          (\<exists>ls. x = installBatchLogsMsg ls \<and> Emit y = scanLogs ls))"
proof -
  have "\<And>x m' y. Update env m x = Inr (m', Emit y) \<Longrightarrow>
          \<exists>ls. x = installBatchLogsMsg ls \<and> Emit y = scanLogs ls"
  proof -
    fix x m' y
    assume a: "Update env m x = Inr (m', Emit y)"
    then obtain ls where "x = installBatchLogsMsg ls" using Update_emit_only_batch by blast
    with a show "\<exists>ls. x = installBatchLogsMsg ls \<and> Emit y = scanLogs ls"
      by (auto simp add: Let_def)
  qed
  then show ?thesis
    by (auto simp add: Let_def showLogs_def)
qed

theorem single_log_event_frame_witness:
  "\<exists>m' m''. Update idleEnv installingModel (installLogMsg successMarker) = Inr (m', NoCmd)
     \<and> installing m' \<and> err m' = None \<and> currentScreen m' = installScreen
     \<and> installLogs m' = [successMarker]
     \<and> Update idleEnv installingModel (installBatchLogsMsg [successMarker])
           = Inr (m'', Emit installCompleteMsg)
     \<and> Update idleEnv installingModel (installLogMsg ''Error: no such file'')
           = Inr (installingModel\<lparr>installLogs := [''Error: no such file''],
                    logsViewport := \<lparr> vpContent = ''Error: no such file'',
                                        vpAtBottom = True \<rparr>\<rparr>, NoCmd)"
  using single_log_event_frame [of idleEnv installingModel successMarker]
    single_log_event_frame [of idleEnv installingModel "''Error: no such file''"]
  by (simp add: installingModel_def initialModel_def successMarker_def showLogs_def Let_def)

section \<open>Completion and failure detection\<close>

text \<open>
  Claim C2, as stated, fails. A step that delivers the success marker as a single-line
  log event leaves the controller busy: the run below ends with \<open>installing\<close> still set.
  And a batch in which a line carrying the failure marker precedes the line carrying the
  success marker ends in the error state, because the scan stops at the first line that
  carries either marker.
\<close>

theorem success_marker_counterexample:
  "contains successMarker successMarker
   \<and> runSequence idleEnv installingModel [installLogMsg successMarker]
       = Inr (installingModel\<lparr>installLogs := [successMarker],
                logsViewport := \<lparr> vpContent = successMarker, vpAtBottom = True \<rparr>\<rparr>)
   \<and> installing (installingModel\<lparr>installLogs := [successMarker],
                logsViewport := \<lparr> vpContent = successMarker, vpAtBottom = True \<rparr>\<rparr>)
   \<and> runSequence idleEnv installingModel
         [installBatchLogsMsg [''Error: image pull failed'', successMarker]]
       = Inr (installingModel\<lparr>installLogs := [''Error: image pull failed'', successMarker],
                logsViewport := \<lparr> vpContent = ''Error: image pull failed'' @ newline @ successMarker,
                                   vpAtBottom = True \<rparr>,
                installing := False, err := Some ''installation failed''\<rparr>)"
  by (simp add: successMarker_def failureMarker_def installingModel_def initialModel_def
      deliver_def showLogs_def Let_def)

text \<open>
  Claim C2, amended: when log lines arrive as one batch event and the first line of the
  batch that carries a marker carries the success marker (in particular when the last
  line carries it and no earlier line carries a marker), the controller appends the
  batch to the sink, then handles the completion event it emitted: it ends not busy, on
  the same screen, with its error state as it was before. A run of single-line log
  events followed by an explicit completion event ends in the same way.
\<close>

theorem batch_success_detection:
  assumes "\<forall>p\<in>set pre. \<not> contains p successMarker \<and> \<not> contains p failureMarker"
    and "contains l successMarker"
  shows "(\<exists>m'. deliver env m (installBatchLogsMsg (pre @ l # post)) = Inr m'
            \<and> \<not> installing m' \<and> err m' = err m \<and> currentScreen m' = currentScreen m
            \<and> installLogs m' = drop (length (installLogs m @ pre @ l # post) - 200)
                                  (installLogs m @ pre @ l # post))
    \<and> (\<exists>m'. runSequence env m (map installLogMsg (pre @ l # post) @ [installCompleteMsg])
               = Inr m'
            \<and> \<not> installing m' \<and> err m' = err m \<and> currentScreen m' = currentScreen m)"
proof -
  have scan: "scanLogs (pre @ l # post) = Emit installCompleteMsg"
    using assms by (simp add: scanLogs_first_marker)
  have first: "\<exists>m'. deliver env m (installBatchLogsMsg (pre @ l # post)) = Inr m'
            \<and> \<not> installing m' \<and> err m' = err m \<and> currentScreen m' = currentScreen m
            \<and> installLogs m' = drop (length (installLogs m @ pre @ l # post) - 200)
                                  (installLogs m @ pre @ l # post)"
    using scan by (simp add: deliver_def Let_def showLogs_def)
  from runSequence_logs_frame [of env m "pre @ l # post"] obtain m1 where
    run: "runSequence env m (map installLogMsg (pre @ l # post)) = Inr m1" and
    m1: "installing m1 = installing m" "err m1 = err m" "currentScreen m1 = currentScreen m"
    by blast
  have "runSequence env m (map installLogMsg (pre @ l # post) @ [installCompleteMsg])
      = Inr (m1\<lparr>installing := False\<rparr>)"
    unfolding runSequence_append run by (simp add: deliver_def)
  then have "\<exists>m'. runSequence env m (map installLogMsg (pre @ l # post) @ [installCompleteMsg])
               = Inr m'
            \<and> \<not> installing m' \<and> err m' = err m \<and> currentScreen m' = currentScreen m"
    using m1 by simp
  with first show ?thesis by blast
qed

theorem batch_success_detection_witness:
  "\<exists>m'. deliver idleEnv installingModel
           (installBatchLogsMsg [''pulling images'', ''starting containers'', successMarker])
         = Inr m'
     \<and> \<not> installing m' \<and> err m' = None \<and> currentScreen m' = installScreen
     \<and> installLogs m' = [''pulling images'', ''starting containers'', successMarker]"
proof -
  have pre: "\<forall>p\<in>set [''pulling images'', ''starting containers''].
      \<not> contains p successMarker \<and> \<not> contains p failureMarker"
    by (simp add: successMarker_def failureMarker_def)
  have l: "contains successMarker successMarker"
    by (simp add: successMarker_def)
  from batch_success_detection [OF pre l, of idleEnv installingModel "[]"]
  obtain m' where
    "deliver idleEnv installingModel (installBatchLogsMsg
        ([''pulling images'', ''starting containers''] @ successMarker # [])) = Inr m'"
    "\<not> installing m'" "err m' = err installingModel"
    "currentScreen m' = currentScreen installingModel"
    "installLogs m' = drop (length (installLogs installingModel
        @ [''pulling images'', ''starting containers''] @ successMarker # []) - 200)
        (installLogs installingModel
        @ [''pulling images'', ''starting containers''] @ successMarker # [])"
    by blast
  then show ?thesis
    by (simp add: installingModel_def initialModel_def)
qed

text \<open>
  Claim C3, as stated, fails. Five steps deliver their lines as single-line log events,
  the third line carrying the failure marker: all five lines reach the sink in order,
  but the error state stays unset.
\<close>

theorem failure_marker_counterexample:
  "contains ''Error: step 3 failed'' failureMarker
   \<and> runSequence idleEnv installingModel
        (map installLogMsg [''step 1 ok'', ''step 2 ok'', ''Error: step 3 failed'',
              ''step 4 ok'', ''step 5 ok''])
       = Inr (installingModel\<lparr>installLogs := [''step 1 ok'', ''step 2 ok'',
                  ''Error: step 3 failed'', ''step 4 ok'', ''step 5 ok''],
                logsViewport := \<lparr> vpContent = joinStrings [''step 1 ok'', ''step 2 ok'',
                  ''Error: step 3 failed'', ''step 4 ok'', ''step 5 ok''] newline,
                  vpAtBottom = True \<rparr>\<rparr>)
   \<and> err (installingModel\<lparr>installLogs := [''step 1 ok'', ''step 2 ok'',
                  ''Error: step 3 failed'', ''step 4 ok'', ''step 5 ok''],
                logsViewport := \<lparr> vpContent = joinStrings [''step 1 ok'', ''step 2 ok'',
                  ''Error: step 3 failed'', ''step 4 ok'', ''step 5 ok''] newline,
                  vpAtBottom = True \<rparr>\<rparr>) = None"
  by (simp add: failureMarker_def installingModel_def initialModel_def
      deliver_def showLogs_def Let_def)

text \<open>
  Claim C3, amended: a line carrying the failure marker never stops a run. When the
  lines arrive as one batch event and the first line that carries a marker carries the
  failure marker and not the success marker, every line of the batch is appended to the
  sink in order (the sink keeping its last 200 lines), the error state is set to
  "installation failed" and the busy flag is cleared. Delivered as single-line log
  events, the same lines all reach the sink in the same order.
\<close>

theorem batch_failure_detection:
  assumes "\<forall>p\<in>set pre. \<not> contains p successMarker \<and> \<not> contains p failureMarker"
    and "contains l failureMarker" and "\<not> contains l successMarker"
    and "length (installLogs m) \<le> 200"
  shows "(\<exists>m'. deliver env m (installBatchLogsMsg (pre @ l # post)) = Inr m'
            \<and> \<not> installing m' \<and> err m' = Some ''installation failed''
            \<and> currentScreen m' = currentScreen m
            \<and> installLogs m' = drop (length (installLogs m @ pre @ l # post) - 200)
                                  (installLogs m @ pre @ l # post))
    \<and> (\<exists>m'. runSequence env m (map installLogMsg (pre @ l # post)) = Inr m'
            \<and> installLogs m' = drop (length (installLogs m @ pre @ l # post) - 200)
                                  (installLogs m @ pre @ l # post))"
proof -
  have scan: "scanLogs (pre @ l # post) = Emit (installErrorMsg ''installation failed'')"
    using assms by (simp add: scanLogs_first_marker)
  have first: "\<exists>m'. deliver env m (installBatchLogsMsg (pre @ l # post)) = Inr m'
            \<and> \<not> installing m' \<and> err m' = Some ''installation failed''
            \<and> currentScreen m' = currentScreen m
            \<and> installLogs m' = drop (length (installLogs m @ pre @ l # post) - 200)
                                  (installLogs m @ pre @ l # post)"
    using scan by (simp add: deliver_def Let_def showLogs_def)
  from runSequence_single_logs [OF assms(4), of env "pre @ l # post"]
  have "\<exists>m'. runSequence env m (map installLogMsg (pre @ l # post)) = Inr m'
            \<and> installLogs m' = drop (length (installLogs m @ pre @ l # post) - 200)
                                  (installLogs m @ pre @ l # post)"
    by auto
  with first show ?thesis by blast
qed

theorem batch_failure_detection_witness:
  "\<exists>m'. deliver idleEnv installingModel
           (installBatchLogsMsg [''step 1 ok'', ''step 2 ok'', ''Error: step 3 failed'',
              ''step 4 ok'', ''step 5 ok''])
         = Inr m'
     \<and> \<not> installing m' \<and> err m' = Some ''installation failed''
     \<and> installLogs m' = [''step 1 ok'', ''step 2 ok'', ''Error: step 3 failed'',
              ''step 4 ok'', ''step 5 ok'']"
proof -
  have pre: "\<forall>p\<in>set [''step 1 ok'', ''step 2 ok''].
      \<not> contains p successMarker \<and> \<not> contains p failureMarker"
    by (simp add: successMarker_def failureMarker_def)
  have l: "contains ''Error: step 3 failed'' failureMarker"
    "\<not> contains ''Error: step 3 failed'' successMarker"
    by (simp_all add: successMarker_def failureMarker_def)
  have len: "length (installLogs installingModel) \<le> 200"
    by (simp add: installingModel_def initialModel_def)
  from batch_failure_detection [OF pre l len, of idleEnv "[''step 4 ok'', ''step 5 ok'']"]
  obtain m' where
    "deliver idleEnv installingModel (installBatchLogsMsg ([''step 1 ok'', ''step 2 ok'']
        @ ''Error: step 3 failed'' # [''step 4 ok'', ''step 5 ok''])) = Inr m'"
    "\<not> installing m'" "err m' = Some ''installation failed''"
    "installLogs m' = drop (length (installLogs installingModel @ [''step 1 ok'', ''step 2 ok'']
        @ ''Error: step 3 failed'' # [''step 4 ok'', ''step 5 ok'']) - 200)
        (installLogs installingModel @ [''step 1 ok'', ''step 2 ok'']
        @ ''Error: step 3 failed'' # [''step 4 ok'', ''step 5 ok''])"
    by blast
  then show ?thesis
    by (simp add: installingModel_def initialModel_def)
qed

section \<open>Provisioning screens and the busy flag\<close>

text \<open>
  Claim C4, as stated, fails in two places. On the install screen Esc, Enter and Tab stay
  rejected after the completion event has cleared the busy flag: the guard in \<open>Update\<close>
  tests the screen, not the flag. On the security-agent install screen, reached by
  pressing "Yes" on the management screen, the busy flag is set but nothing is rejected:
  Esc leads to the welcome screen and Tab moves the focus.
\<close>

theorem busy_gate_counterexample:
  "Update idleEnv installingModel installCompleteMsg
     = Inr (installingModel\<lparr>installing := False\<rparr>, NoCmd)
   \<and> Update idleEnv (installingModel\<lparr>installing := False\<rparr>) (KeyMsg KeyBack)
     = Inr (installingModel\<lparr>installing := False\<rparr>, WidgetCmds)
   \<and> Update idleEnv (installingModel\<lparr>installing := False\<rparr>) (KeyMsg KeyEnter)
     = Inr (installingModel\<lparr>installing := False\<rparr>, WidgetCmds)
   \<and> Update idleEnv (installingModel\<lparr>installing := False\<rparr>) (KeyMsg KeyTab)
     = Inr (installingModel\<lparr>installing := False\<rparr>, WidgetCmds)
   \<and> Update idleEnv crowdsecManageModel (KeyMsg KeyEnter)
     = Inr (crowdsecInstallingModel, RunCrowdsecInstallation)
   \<and> currentScreen crowdsecInstallingModel = crowdsecInstallScreen
   \<and> installing crowdsecInstallingModel
   \<and> Update idleEnv crowdsecInstallingModel (KeyMsg KeyBack)
     = Inr (initScreen idleEnv (crowdsecInstallingModel\<lparr>currentScreen := welcomeScreen\<rparr>),
            NoCmd)
   \<and> currentScreen (initScreen idleEnv (crowdsecInstallingModel\<lparr>currentScreen := welcomeScreen\<rparr>))
     = welcomeScreen
   \<and> focusIndex crowdsecInstallingModel = 0
   \<and> Update idleEnv crowdsecInstallingModel (KeyMsg KeyTab)
     = Inr (updateFocus (crowdsecInstallingModel\<lparr>err := None, focusIndex := 1\<rparr>), NoCmd)"
  by (simp add: installingModel_def crowdsecInstallingModel_def crowdsecManageModel_def
      initialModel_def emptyConfig_def updateWidgets_def idleEnv_def Let_def
      initScreen_def updateFocus_def yesNoButtons_def createButtonField_def
      enumerate_eq_zip upt_rec focusedOnInput_def handleEnter_def handleButtonPress_def
      nextScreen_def startCrowdsecInstallation_def handleBack_def handleNavigation_def)

text \<open>
  Claim C4, amended: entering the install screen or the security-agent install screen
  through \<open>nextScreen\<close> sets \<open>installing\<close> and hands the step sequence to the runtime.
  On the install screen Esc, Enter, Tab and Shift+Tab are rejected, leaving the current
  screen, the focus index, the configuration, the busy flag and the error state as they
  are, whatever the value of the busy flag; a completion event only clears the flag and
  an error event clears the flag and records the error, so on the install screen those
  keys stay rejected afterwards (installation is one-way).
\<close>

theorem install_screen_one_way:
  "(getNextScreen (currentScreen m) (lastChoice m) (config m) = installScreen
     \<longrightarrow> nextScreen env m
          = (m\<lparr>currentScreen := installScreen, installing := True\<rparr>, RunInstallation))
   \<and> (getNextScreen (currentScreen m) (lastChoice m) (config m) = crowdsecInstallScreen
     \<longrightarrow> nextScreen env m
          = (m\<lparr>currentScreen := crowdsecInstallScreen, installing := True\<rparr>,
             RunCrowdsecInstallation))
   \<and> (currentScreen m = installScreen
        \<and> (k = KeyBack \<or> k = KeyEnter \<or> k = KeyTab \<or> k = KeyShiftTab)
     \<longrightarrow> (\<exists>m'. Update env m (KeyMsg k) = Inr (m', WidgetCmds)
           \<and> currentScreen m' = installScreen \<and> focusIndex m' = focusIndex m
           \<and> config m' = config m \<and> installing m' = installing m \<and> err m' = err m))
   \<and> Update env m installCompleteMsg = Inr (m\<lparr>installing := False\<rparr>, NoCmd)
   \<and> Update env m (installErrorMsg e) = Inr (m\<lparr>installing := False, err := Some e\<rparr>, NoCmd)"
proof -
  have keys: "currentScreen m = installScreen
      \<Longrightarrow> k = KeyBack \<or> k = KeyEnter \<or> k = KeyTab \<or> k = KeyShiftTab
      \<Longrightarrow> \<exists>m'. Update env m (KeyMsg k) = Inr (m', WidgetCmds)
           \<and> currentScreen m' = installScreen \<and> focusIndex m' = focusIndex m
           \<and> config m' = config m \<and> installing m' = installing m \<and> err m' = err m"
  proof -
    assume scr: "currentScreen m = installScreen"
      and k: "k = KeyBack \<or> k = KeyEnter \<or> k = KeyTab \<or> k = KeyShiftTab"
    have "Update env m (KeyMsg k) = Inr (updateWidgets env (KeyMsg k) m)"
      using scr k by auto
    then have "Update env m (KeyMsg k)
        = Inr (fst (updateWidgets env (KeyMsg k) m), WidgetCmds)"
      by (simp add: updateWidgets_def Let_def)
    then show ?thesis using scr by simp
  qed
  show ?thesis
    using keys nextScreen_enters_install nextScreen_enters_crowdsecInstall by simp
qed

theorem install_screen_one_way_witness:
  "nextScreen idleEnv ((initialModel emptyConfig)\<lparr>currentScreen := installContainersScreen\<rparr>)
     = (installingModel, RunInstallation)
   \<and> Update idleEnv installingModel (KeyMsg KeyBack) = Inr (installingModel, WidgetCmds)
   \<and> Update idleEnv installingModel (KeyMsg KeyEnter) = Inr (installingModel, WidgetCmds)
   \<and> Update idleEnv installingModel (KeyMsg KeyTab) = Inr (installingModel, WidgetCmds)
   \<and> Update idleEnv installingModel installCompleteMsg
       = Inr (installingModel\<lparr>installing := False\<rparr>, NoCmd)
   \<and> nextScreen idleEnv (crowdsecManageModel\<lparr>config := emptyConfig\<lparr>DoCrowdsecInstall := True\<rparr>\<rparr>)
       = (crowdsecInstallingModel, RunCrowdsecInstallation)"
  using install_screen_one_way [of
      "(initialModel emptyConfig)\<lparr>currentScreen := installContainersScreen\<rparr>" idleEnv KeyBack]
    install_screen_one_way [of
      "crowdsecManageModel\<lparr>config := emptyConfig\<lparr>DoCrowdsecInstall := True\<rparr>\<rparr>" idleEnv KeyBack]
    install_screen_one_way [of installingModel idleEnv KeyBack]
    install_screen_one_way [of installingModel idleEnv KeyEnter]
    install_screen_one_way [of installingModel idleEnv KeyTab]
  by (simp add: installingModel_def initialModel_def updateWidgets_def idleEnv_def Let_def
      crowdsecManageModel_def crowdsecInstallingModel_def)

section \<open>Submitting the domain screen\<close>

text \<open>
  Claim C5, as stated, fails in its last part: a successful submission in hybrid mode
  does not leave the base domain unset when it was set before. With the configuration
  of an existing installation (base domain \<open>example.com\<close>) and hybrid mode chosen, the
  submission stores the typed address as dashboard domain and the base domain is still
  \<open>example.com\<close>: the hybrid branch never writes it.
\<close>

theorem hybrid_base_domain_counterexample:
  "HybridMode (config hybridExistingModel)
   \<and> validateAndSaveDomainConfig idleEnv hybridExistingModel
       = Inr (initScreen idleEnv
               (hybridExistingModel\<lparr>config := existingInstallConfig\<lparr>HybridMode := True,
                     DashboardDomain := ''203.0.113.1'', InstallGerbil := True\<rparr>,
                  currentScreen := advancedConfigScreen\<rparr>), NoCmd)
   \<and> DashboardDomain (config (initScreen idleEnv
               (hybridExistingModel\<lparr>config := existingInstallConfig\<lparr>HybridMode := True,
                     DashboardDomain := ''203.0.113.1'', InstallGerbil := True\<rparr>,
                  currentScreen := advancedConfigScreen\<rparr>)))
       = ''203.0.113.1''
   \<and> BaseDomain (config (initScreen idleEnv
               (hybridExistingModel\<lparr>config := existingInstallConfig\<lparr>HybridMode := True,
                     DashboardDomain := ''203.0.113.1'', InstallGerbil := True\<rparr>,
                  currentScreen := advancedConfigScreen\<rparr>)))
       = ''example.com''"
  by (simp add: validateAndSaveDomainConfig_def nextScreen_def Let_def
      hybridExistingModel_fields existingInstallConfig_def emptyConfig_def)

text \<open>
  Claim C5, amended: when the domain screen is submitted and validation passes (no
  required field is empty; the field list has the inputs the mode reads), the submission
  succeeds and, in standard mode, the dashboard domain is the subdomain input, or
  \<open>pangolin\<close> when that input is empty, followed by a dot and the base-domain input,
  which is stored as the base domain; in hybrid mode the dashboard domain is the first
  input verbatim and the base domain is left as it was: unset when it was unset, and
  otherwise the value it had.
\<close>

theorem dashboard_domain_derived:
  assumes "find (\<lambda>f. required f \<and> tiValue (input f) = []) (fieldList m) = None"
    and "(if HybridMode (config m) then 1 else 3) \<le> length (fieldList m)"
  shows "\<exists>m' c. validateAndSaveDomainConfig env m = Inr (m', c)
      \<and> (if HybridMode (config m)
         then DashboardDomain (config m') = tiValue (input (fieldList m ! 0))
            \<and> BaseDomain (config m') = BaseDomain (config m)
         else DashboardDomain (config m')
              = (if tiValue (input (fieldList m ! 1)) = [] then ''pangolin''
                 else tiValue (input (fieldList m ! 1)))
                @ ''.'' @ tiValue (input (fieldList m ! 0))
            \<and> BaseDomain (config m') = tiValue (input (fieldList m ! 0)))"
proof (cases "HybridMode (config m)")
  case True
  let ?m = "m\<lparr>config := (config m)\<lparr>DashboardDomain := tiValue (input (fieldList m ! 0)),
                                       InstallGerbil := True\<rparr>\<rparr>"
  have "validateAndSaveDomainConfig env m = Inr (nextScreen env ?m)"
    using assms True by (auto simp add: validateAndSaveDomainConfig_def Let_def)
  then have "validateAndSaveDomainConfig env m
      = Inr (fst (nextScreen env ?m), snd (nextScreen env ?m))"
    by simp
  moreover have "DashboardDomain (config (fst (nextScreen env ?m)))
        = tiValue (input (fieldList m ! 0))"
    "BaseDomain (config (fst (nextScreen env ?m))) = BaseDomain (config m)"
    by simp_all
  ultimately show ?thesis using True by metis
next
  case False
  let ?sub = "if tiValue (input (fieldList m ! 1)) = [] then ''pangolin''
              else tiValue (input (fieldList m ! 1))"
  let ?m = "m\<lparr>config := (config m)\<lparr>BaseDomain := tiValue (input (fieldList m ! 0)),
              DashboardDomain := ?sub @ ''.'' @ tiValue (input (fieldList m ! 0)),
              LetsEncryptEmail := tiValue (input (fieldList m ! 2)),
              InstallGerbil := True\<rparr>\<rparr>"
  have "validateAndSaveDomainConfig env m = Inr (nextScreen env ?m)"
    using assms False by (auto simp add: validateAndSaveDomainConfig_def Let_def)
  then have "validateAndSaveDomainConfig env m
      = Inr (fst (nextScreen env ?m), snd (nextScreen env ?m))"
    by simp
  moreover have "DashboardDomain (config (fst (nextScreen env ?m)))
        = ?sub @ ''.'' @ tiValue (input (fieldList m ! 0))"
    "BaseDomain (config (fst (nextScreen env ?m))) = tiValue (input (fieldList m ! 0))"
    by simp_all
  ultimately show ?thesis using False by metis
qed

theorem dashboard_domain_derived_witness:
  "(\<exists>m' c. validateAndSaveDomainConfig idleEnv standardDomainModel = Inr (m', c)
      \<and> DashboardDomain (config m') = ''pangolin.example.com''
      \<and> BaseDomain (config m') = ''example.com'')
   \<and> (\<exists>m' c. validateAndSaveDomainConfig idleEnv hybridDomainModel = Inr (m', c)
      \<and> DashboardDomain (config m') = ''203.0.113.1''
      \<and> BaseDomain (config m') = [])"
proof
  have "find (\<lambda>f. required f \<and> tiValue (input f) = []) (fieldList standardDomainModel) = None"
    and "(if HybridMode (config standardDomainModel) then 1 else 3)
          \<le> length (fieldList standardDomainModel)"
    by (simp_all add: standardDomainModel_fields emptyConfig_def)
  from dashboard_domain_derived [OF this, of idleEnv]
  show "\<exists>m' c. validateAndSaveDomainConfig idleEnv standardDomainModel = Inr (m', c)
      \<and> DashboardDomain (config m') = ''pangolin.example.com''
      \<and> BaseDomain (config m') = ''example.com''"
    by (simp add: standardDomainModel_fields emptyConfig_def)
next
  have "find (\<lambda>f. required f \<and> tiValue (input f) = []) (fieldList hybridDomainModel) = None"
    and "(if HybridMode (config hybridDomainModel) then 1 else 3)
          \<le> length (fieldList hybridDomainModel)"
    by (simp_all add: hybridDomainModel_fields emptyConfig_def)
  from dashboard_domain_derived [OF this, of idleEnv]
  show "\<exists>m' c. validateAndSaveDomainConfig idleEnv hybridDomainModel = Inr (m', c)
      \<and> DashboardDomain (config m') = ''203.0.113.1''
      \<and> BaseDomain (config m') = []"
    by (simp add: hybridDomainModel_fields emptyConfig_def)
qed

text \<open>
  Claim C7: on every screen whose fields carry the required flags that \<open>initScreen\<close>
  gives them, a submission while some required text field is empty (through
  \<open>handleSubmit\<close> or through the button) leaves the current screen and the
  configuration unchanged and sets the error to the label of the first such field
  followed by " is required", which is not empty. Only the domain screen has required
  fields.
\<close>

theorem required_field_validation:
  assumes "map required (fieldList m) = map required (fieldList (initScreen env m))"
    and "find (\<lambda>f. required f \<and> tiValue (input f) = []) (fieldList m) = Some f"
  shows "f \<in> set (fieldList m) \<and> required f \<and> tiValue (input f) = []
    \<and> label f @ '' is required'' \<noteq> []
    \<and> currentScreen m = domainConfigScreen
    \<and> validateAndSaveDomainConfig env m
        = Inr (m\<lparr>err := Some (label f @ '' is required'')\<rparr>, NoCmd)
    \<and> handleSubmit env m = Inr (m\<lparr>err := Some (label f @ '' is required'')\<rparr>, NoCmd)
    \<and> handleButtonPress env m
        = Inr (m\<lparr>lastChoice := focusIndex m, err := Some (label f @ '' is required'')\<rparr>,
               NoCmd)"
proof -
  from assms(2) have f: "f \<in> set (fieldList m)" "required f" "tiValue (input f) = []"
    by (auto simp add: find_Some_iff)
  then have "True \<in> set (map required (fieldList m))"
    by force
  then have scr: "currentScreen m = domainConfigScreen"
    using assms(1) required_only_on_domain_screen by metis
  have v: "validateAndSaveDomainConfig env m
        = Inr (m\<lparr>err := Some (label f @ '' is required'')\<rparr>, NoCmd)"
    using assms(2) by (simp add: validateAndSaveDomainConfig_def)
  have b: "handleButtonPress env m
        = Inr (m\<lparr>lastChoice := focusIndex m, err := Some (label f @ '' is required'')\<rparr>,
               NoCmd)"
    using assms(2) scr by (simp add: handleButtonPress_def validateAndSaveDomainConfig_def)
  show ?thesis
    using f scr v b by (simp add: handleSubmit_def)
qed

theorem required_field_validation_witness:
  "handleSubmit idleEnv emptyDomainModel
     = Inr (emptyDomainModel\<lparr>err := Some ''Base Domain is required''\<rparr>, NoCmd)
   \<and> currentScreen (emptyDomainModel\<lparr>err := Some ''Base Domain is required''\<rparr>)
       = domainConfigScreen
   \<and> config (emptyDomainModel\<lparr>err := Some ''Base Domain is required''\<rparr>) = emptyConfig"
proof -
  have shape: "map required (fieldList emptyDomainModel)
      = map required (fieldList (initScreen idleEnv emptyDomainModel))"
    by (simp add: emptyDomainModel_def initScreen_def Let_def)
  have first: "find (\<lambda>f. required f \<and> tiValue (input f) = []) (fieldList emptyDomainModel)
      = Some (hd (fieldList emptyDomainModel))"
    by (simp add: emptyDomainModel_fields)
  from required_field_validation [OF shape first]
  show ?thesis
    by (simp add: emptyDomainModel_fields)
qed

section \<open>Enter on a text input\<close>

text \<open>
  Claim C8: with two text inputs followed by one button and the focus on the second
  input, Enter moves the focus to the button, keeps the screen and the configuration,
  and submits nothing. In general Enter on a text input that is not the last field moves
  the focus to the next field, and Enter on a text input that is the last field submits
  the screen. Outside the install screen the Enter key is handled by \<open>handleEnter\<close>.
\<close>

theorem enter_on_text_input:
  "(fieldList m = [f1, f2, b] \<and> fType f1 = fieldInput \<and> fType f2 = fieldInput
      \<and> fType b = fieldButton \<and> focusIndex m = 1
     \<longrightarrow> handleEnter env m = Inr (updateFocus (m\<lparr>err := None, focusIndex := 2\<rparr>), NoCmd))
   \<and> (focusIndex m < length (fieldList m) - 1
      \<and> fType (fieldList m ! focusIndex m) = fieldInput
     \<longrightarrow> handleEnter env m
          = Inr (updateFocus (m\<lparr>err := None, focusIndex := focusIndex m + 1\<rparr>), NoCmd))
   \<and> (fieldList m \<noteq> [] \<and> focusIndex m = length (fieldList m) - 1
      \<and> fType (fieldList m ! focusIndex m) = fieldInput
     \<longrightarrow> handleEnter env m = handleSubmit env m)
   \<and> currentScreen (updateFocus (m\<lparr>err := None, focusIndex := n\<rparr>)) = currentScreen m
   \<and> config (updateFocus (m\<lparr>err := None, focusIndex := n\<rparr>)) = config m
   \<and> focusIndex (updateFocus (m\<lparr>err := None, focusIndex := n\<rparr>)) = n
   \<and> (currentScreen m \<noteq> installScreen
     \<longrightarrow> Update env m (KeyMsg KeyEnter) = handleEnter env m)"
proof -
  have general: "focusIndex m < length (fieldList m) - 1
      \<Longrightarrow> fType (fieldList m ! focusIndex m) = fieldInput
      \<Longrightarrow> handleEnter env m
          = Inr (updateFocus (m\<lparr>err := None, focusIndex := focusIndex m + 1\<rparr>), NoCmd)"
    by (auto simp add: handleEnter_def handleNavigation_def)
  have scenario: "fieldList m = [f1, f2, b] \<Longrightarrow> fType f1 = fieldInput \<Longrightarrow> fType f2 = fieldInput
      \<Longrightarrow> fType b = fieldButton \<Longrightarrow> focusIndex m = 1
      \<Longrightarrow> handleEnter env m = Inr (updateFocus (m\<lparr>err := None, focusIndex := 2\<rparr>), NoCmd)"
    using general by (simp add: numeral_2_eq_2)
  have last: "fieldList m \<noteq> [] \<Longrightarrow> focusIndex m = length (fieldList m) - 1
      \<Longrightarrow> fType (fieldList m ! focusIndex m) = fieldInput
      \<Longrightarrow> handleEnter env m = handleSubmit env m"
    by (simp add: handleEnter_def)
  have update: "currentScreen m \<noteq> installScreen
      \<Longrightarrow> Update env m (KeyMsg KeyEnter) = handleEnter env m"
    by simp
  show ?thesis
    by (intro conjI impI; (elim conjE)?) (rule scenario general last update; assumption | simp)+
qed

theorem enter_on_text_input_witness:
  "handleEnter idleEnv twoInputsOneButton
     = Inr (updateFocus (twoInputsOneButton\<lparr>err := None, focusIndex := 2\<rparr>), NoCmd)
   \<and> focusIndex (updateFocus (twoInputsOneButton\<lparr>err := None, focusIndex := 2\<rparr>)) = 2
   \<and> fType (fieldList twoInputsOneButton ! 2) = fieldButton
   \<and> currentScreen (updateFocus (twoInputsOneButton\<lparr>err := None, focusIndex := 2\<rparr>))
       = currentScreen twoInputsOneButton
   \<and> Update idleEnv twoInputsOneButton (KeyMsg KeyEnter)
       = Inr (updateFocus (twoInputsOneButton\<lparr>err := None, focusIndex := 2\<rparr>), NoCmd)
   \<and> handleEnter idleEnv oneInputNoButton = handleSubmit idleEnv oneInputNoButton
   \<and> handleSubmit idleEnv oneInputNoButton
       = Inr (initScreen idleEnv (oneInputNoButton\<lparr>currentScreen := advancedConfigScreen\<rparr>),
              NoCmd)"
  using enter_on_text_input [of twoInputsOneButton
      "fieldList twoInputsOneButton ! 0" "fieldList twoInputsOneButton ! 1"
      "fieldList twoInputsOneButton ! 2" idleEnv 2]
    enter_on_text_input [of oneInputNoButton
      "fieldList oneInputNoButton ! 0" "fieldList oneInputNoButton ! 0"
      "fieldList oneInputNoButton ! 0" idleEnv 0]
  by (simp add: twoInputsOneButton_def oneInputNoButton_def updateFocus_def initialModel_def
      createInputField_def createButtonField_def enumerate_eq_zip upt_rec
      handleSubmit_def saveEmailConfig_def nextScreen_def Let_def)

end
